theory Spec2Isabelle
  imports Complex_Main "HOL-Library.Multiset" "HOL-Library.Sublist"
begin

section \<open>Python strings\<close>

text \<open>
  A Python \<open>str\<close> is modelled as a \<open>string\<close>, each \<open>char\<close> standing for one
  Unicode code point below 256. On this range \<open>str.lower\<close> works character by
  character: it adds 32 to the code points of \<open>A-Z\<close> (65-90) and of the Latin-1
  capitals (192-214 and 216-222) and leaves every other character alone.
\<close>

definition py_isupper_char :: "char \<Rightarrow> bool" where
  "py_isupper_char c =
     (let n = (of_char c :: nat)
      in (65 \<le> n \<and> n \<le> 90) \<or> (192 \<le> n \<and> n \<le> 214) \<or> (216 \<le> n \<and> n \<le> 222))"

definition py_lower_char :: "char \<Rightarrow> char" where
  "py_lower_char c = (if py_isupper_char c then char_of ((of_char c :: nat) + 32) else c)"

definition py_lower :: "string \<Rightarrow> string" where
  "py_lower s = map py_lower_char s"

text \<open>
  The whitespace of \<open>str.strip\<close>, \<open>str.isspace\<close> and of the regular expression
  class \<open>\s\<close> on \<open>str\<close> patterns: code points 9-13, 28-32, 133 and 160.
\<close>

definition py_isspace_char :: "char \<Rightarrow> bool" where
  "py_isspace_char c =
     (let n = (of_char c :: nat)
      in (9 \<le> n \<and> n \<le> 13) \<or> (28 \<le> n \<and> n \<le> 32) \<or> n = 133 \<or> n = 160)"

definition py_strip :: "string \<Rightarrow> string" where
  "py_strip s = rev (dropWhile py_isspace_char (rev (dropWhile py_isspace_char s)))"

text \<open>\<open>" ".join(tokens)\<close>\<close>

fun join_space :: "string list \<Rightarrow> string" where
  "join_space [] = []"
| "join_space [t] = t"
| "join_space (t # ts) = t @ '' '' @ join_space ts"

text \<open>
  The default cleaning pattern of the preprocessor is \<open>[^a-zA-Z0-9\s]\<close>: a negated
  character class, whose matches \<open>re.sub\<close> deletes. The characters that survive are
  the ASCII letters, the digits and whitespace.
\<close>

definition default_keep_char :: "char \<Rightarrow> bool" where
  "default_keep_char c =
     (let n = (of_char c :: nat)
      in (97 \<le> n \<and> n \<le> 122) \<or> (65 \<le> n \<and> n \<le> 90) \<or> (48 \<le> n \<and> n \<le> 57)
         \<or> py_isspace_char c)"

section \<open>Numbers\<close>

text \<open>
  A Python \<open>float\<close> is modelled by the real number it denotes, and a decimal literal
  by its decimal value. \<open>int(x)\<close> truncates towards zero; \<open>round(x, 4)\<close> rounds
  to the nearest multiple of \<open>1/10000\<close>, a tie going to the even multiple.
\<close>

definition py_int :: "real \<Rightarrow> int" where
  "py_int x = (if x < 0 then \<lceil>x\<rceil> else \<lfloor>x\<rfloor>)"

definition py_round_half_even :: "real \<Rightarrow> int" where
  "py_round_half_even y =
     (let f = \<lfloor>y\<rfloor>; d = y - of_int f
      in if d < 1 / 2 then f
         else if 1 / 2 < d then f + 1
         else if even f then f else f + 1)"

definition py_round4 :: "real \<Rightarrow> real" where
  "py_round4 x = of_int (py_round_half_even (x * 10000)) / 10000"

text \<open>\<open>str(n)\<close> of an integer: its decimal digits, after a minus sign when negative.\<close>

definition digit_char :: "nat \<Rightarrow> char" where
  "digit_char d = char_of (48 + d)"

function str_nat :: "nat \<Rightarrow> string" where
  "str_nat n = (if n < 10 then [digit_char n] else str_nat (n div 10) @ [digit_char (n mod 10)])"
  by pat_completeness auto
termination
  by (relation "measure (\<lambda>n. n)") auto

declare str_nat.simps [simp del]

definition str_int :: "int \<Rightarrow> string" where
  "str_int i = (if i < 0 then CHR ''-'' # str_nat (nat (- i)) else str_nat (nat i))"

text \<open>
  \<open>list[:n]\<close>: the first \<open>n\<close> elements, and for a negative \<open>n\<close> all but the last
  \<open>-n\<close> elements.
\<close>

definition py_slice_to :: "'a list \<Rightarrow> int \<Rightarrow> 'a list" where
  "py_slice_to xs n = (if n < 0 then take (length xs - nat (- n)) xs else take (nat n) xs)"

text \<open>
  \<open>list.sort(key=..., reverse=True)\<close> is a stable sort into descending key order:
  elements are compared by \<open><\<close> on their keys only, and of two elements neither of
  whose keys is smaller the one that came first stays first.
\<close>

fun insort_desc :: "('a \<Rightarrow> 'k::linorder) \<Rightarrow> 'a \<Rightarrow> 'a list \<Rightarrow> 'a list" where
  "insort_desc key x [] = [x]"
| "insort_desc key x (y # ys) =
     (if key x < key y then y # insort_desc key x ys else x # y # ys)"

definition py_sort_reverse :: "('a \<Rightarrow> 'k::linorder) \<Rightarrow> 'a list \<Rightarrow> 'a list" where
  "py_sort_reverse key xs = foldr (insort_desc key) xs []"

section \<open>Resources and external collaborators\<close>

text \<open>
  One document of an Elasticsearch \<open>mget\<close> response: \<open>_id\<close>, \<open>found\<close>, and the
  \<open>description\<close> and \<open>label\<close> fields of \<open>_source\<close> (\<open>None\<close> when the key is
  missing). One hit of a search response: the \<open>pid\<close> field of its \<open>_source\<close>.
\<close>

record es_doc =
  doc_id :: string
  doc_found :: bool
  doc_description :: "string option"
  doc_label :: "string option"

record es_hit =
  hit_pid :: "string option"

text \<open>
  The process-wide resources: the settings (\<open>max_candidates\<close>; the cleaning pattern,
  a negated character class given by the characters it keeps), the loaded stopword
  set, the embedding model with its cosine similarity, and the Elasticsearch client.
  A call of the model or of the client that raises returns \<open>None\<close>.
\<close>

record 'v env =
  max_candidates :: int
  keep_char :: "char \<Rightarrow> bool"
  stopwords :: "string set"
  encode :: "string \<Rightarrow> 'v option"
  cos_sim :: "'v \<Rightarrow> 'v \<Rightarrow> real"
  es_mget :: "string list \<Rightarrow> es_doc list option"
  es_search :: "string \<Rightarrow> es_hit list option"

text \<open>The calls a request makes to its collaborators, in order.\<close>

datatype call = EsSearch string | EsMget "string list" | Encode string

fun is_scoring_call :: "call \<Rightarrow> bool" where
  "is_scoring_call (Encode _) = True"
| "is_scoring_call _ = False"

fun is_resolver_call :: "call \<Rightarrow> bool" where
  "is_resolver_call (EsMget _) = True"
| "is_resolver_call _ = False"

text \<open>
  The stopword loader of both modules (src/main.py, and
  \<open>FalconPreprocessor._load_stopwords\<close> in src/falcon/preprocessing.py), over the
  lines of the stopword file: each line is stripped and lower-cased, and kept unless it
  is empty or a comment.
\<close>

fun load_stopwords :: "string list \<Rightarrow> string set" where
  "load_stopwords [] = {}"
| "load_stopwords (line # rest) =
     (let word = py_lower (py_strip line)
      in if word \<noteq> [] \<and> hd word \<noteq> CHR ''#''
         then insert word (load_stopwords rest)
         else load_stopwords rest)"

section \<open>Phase A: compression\<close>

text \<open>\<open>FalconPreprocessor.clean_context_window\<close> (src/falcon/preprocessing.py)\<close>

fun clean_context_window :: "'v env \<Rightarrow> string list \<Rightarrow> string list" where
  "clean_context_window env [] = []"
| "clean_context_window env (token # rest) =
     (let token_lower = py_lower token;
          token_clean = filter (keep_char env) token_lower
      in if token_clean \<noteq> [] \<and> token_clean \<notin> stopwords env
         then token_clean # clean_context_window env rest
         else clean_context_window env rest)"

text \<open>\<open>preprocess_context\<close> (src/main.py)\<close>

definition preprocess_context :: "'v env \<Rightarrow> string list \<Rightarrow> string list" where
  "preprocess_context env context_tokens =
     filter (\<lambda>word. py_lower word \<notin> stopwords env) context_tokens"

section \<open>Phase B: property inference\<close>

text \<open>
  The top hit's \<open>pid\<close> when the search returns hits; \<open>None\<close> when it returns no
  hit or raises (the exception is caught and logged).
\<close>

definition top_hit_pid :: "es_hit list option \<Rightarrow> string option" where
  "top_hit_pid res =
     (case res of
        None \<Rightarrow> None
      | Some hits \<Rightarrow> (case hits of [] \<Rightarrow> None | h # _ \<Rightarrow> hit_pid h))"

text \<open>\<open>FalconPipeline._infer_property_from_ngrams\<close> (src/falcon/pipeline.py)\<close>

definition infer_property_from_ngrams :: "'v env \<Rightarrow> string list \<Rightarrow> call list \<times> string option" where
  "infer_property_from_ngrams env tokens =
     (if tokens = [] then ([], None)
      else let window_query = join_space tokens
           in ([EsSearch window_query], top_hit_pid (es_search env window_query)))"

text \<open>\<open>extract_inferred_property\<close> (src/main.py)\<close>

definition extract_inferred_property :: "'v env \<Rightarrow> string list \<Rightarrow> call list \<times> string option" where
  "extract_inferred_property env context_tokens =
     (let window = join_space context_tokens
      in if py_strip window = [] then ([], None)
         else ([EsSearch window], top_hit_pid (es_search env window)))"

section \<open>Description resolver\<close>

text \<open>
  The description map is a Python \<open>dict\<close> from identifiers to strings. A document
  found contributes its description, or its label when the description is missing or
  empty, or the empty string; a document not found contributes the empty string.
\<close>

definition or_empty :: "string option \<Rightarrow> string" where
  "or_empty v = (case v of None \<Rightarrow> [] | Some s \<Rightarrow> s)"

definition doc_text :: "es_doc \<Rightarrow> string" where
  "doc_text doc =
     (if doc_found doc
      then (let desc = or_empty (doc_description doc)
            in if desc = [] then or_empty (doc_label doc) else desc)
      else [])"

fun collect_docs :: "es_doc list \<Rightarrow> (string \<rightharpoonup> string) \<Rightarrow> (string \<rightharpoonup> string)" where
  "collect_docs [] descriptions = descriptions"
| "collect_docs (doc # docs) descriptions =
     collect_docs docs (descriptions(doc_id doc \<mapsto> doc_text doc))"

fun all_empty :: "string list \<Rightarrow> (string \<rightharpoonup> string) \<Rightarrow> (string \<rightharpoonup> string)" where
  "all_empty [] m = m"
| "all_empty (qid # qids) m = all_empty qids (m(qid \<mapsto> []))"

text \<open>
  \<open>fetch_candidate_descriptions\<close> (src/main.py) and
  \<open>FalconPipeline._fetch_descriptions\<close> (src/falcon/pipeline.py): on documents whose
  fields are strings the two compute the same map.
\<close>

definition fetch_candidate_descriptions :: "'v env \<Rightarrow> string list \<Rightarrow> call list \<times> (string \<rightharpoonup> string)" where
  "fetch_candidate_descriptions env candidate_ids =
     ([EsMget candidate_ids],
      case es_mget env candidate_ids of
        Some docs \<Rightarrow> collect_docs docs Map.empty
      | None \<Rightarrow> all_empty candidate_ids Map.empty)"

definition fetch_descriptions :: "'v env \<Rightarrow> string list \<Rightarrow> call list \<times> (string \<rightharpoonup> string)" where
  "fetch_descriptions env qids =
     ([EsMget qids],
      case es_mget env qids of
        Some docs \<Rightarrow> collect_docs docs Map.empty
      | None \<Rightarrow> all_empty qids Map.empty)"

section \<open>Phase C: scoring\<close>

record ranked_candidate =
  cand_id :: string
  falcon_score :: real
  semantic_reason :: string

record result =
  inferred_property :: "string option"
  ranked_candidates :: "ranked_candidate list"

datatype error = BadRequest | EncodeFailed

text \<open>\<open>FalconPipeline._generate_reason\<close> (src/falcon/pipeline.py)\<close>

definition generate_reason :: "real \<Rightarrow> string" where
  "generate_reason score =
     (if score > 0.8 then ''Strong Context Match ('' @ str_int (py_int (score * 100)) @ ''%)''
      else if score > 0.4 then ''Moderate Context Overlap ('' @ str_int (py_int (score * 100)) @ ''%)''
      else ''Low Context Similarity'')"

text \<open>The rationale of \<open>disambiguate\<close> (src/main.py), written inline there.\<close>

definition context_match_reason :: "real \<Rightarrow> string" where
  "context_match_reason score =
     (if score > 0.4 then ''Context match: '' @ str_int (py_int (score * 100)) @ ''%''
      else ''Low context overlap'')"

text \<open>
  The scoring loop of both pipelines, over the candidates in their order; \<open>reason\<close>
  is the rationale each pipeline attaches. The loop stops with \<open>None\<close> when the
  embedding model raises.
\<close>

fun score_candidates ::
  "'v env \<Rightarrow> (real \<Rightarrow> string) \<Rightarrow> string \<Rightarrow> (string \<rightharpoonup> string) \<Rightarrow> 'v \<Rightarrow> string list
     \<Rightarrow> call list \<times> ranked_candidate list option" where
  "score_candidates env reason surface_form descriptions_map vector_a [] = ([], Some [])"
| "score_candidates env reason surface_form descriptions_map vector_a (qid # rest) =
     (let desc = or_empty (descriptions_map qid);
          text_to_encode = (if desc \<noteq> [] then desc else surface_form)
      in case encode env text_to_encode of
           None \<Rightarrow> ([Encode text_to_encode], None)
         | Some vector_b \<Rightarrow>
             (let score = cos_sim env vector_a vector_b;
                  score = max 0 (min 1 score);
                  entry = \<lparr>cand_id = qid, falcon_score = py_round4 score,
                           semantic_reason = reason score\<rparr>;
                  (calls, results) =
                    score_candidates env reason surface_form descriptions_map vector_a rest
              in (Encode text_to_encode # calls, map_option ((#) entry) results)))"

section \<open>The pipelines\<close>

text \<open>
  \<open>FalconPipeline.run\<close> (src/falcon/pipeline.py). It returns the calls made and the
  result, or the exception that escapes (nothing is caught here).
\<close>

definition run :: "'v env \<Rightarrow> string \<Rightarrow> string list \<Rightarrow> string list \<Rightarrow> call list \<times> (error + result)" where
  "run env surface_form raw_context candidate_ids =
     (let clean_context_tokens = clean_context_window env raw_context;
          context_str = join_space clean_context_tokens;
          (calls_b, inferred_pid) = infer_property_from_ngrams env clean_context_tokens
      in if candidate_ids = []
         then (calls_b, Inr \<lparr>inferred_property = inferred_pid, ranked_candidates = []\<rparr>)
         else
           (let (calls_d, descriptions_map) = fetch_descriptions env candidate_ids;
                input_text = py_strip (surface_form @ '' '' @ context_str);
                calls = calls_b @ calls_d @ [Encode input_text]
            in case encode env input_text of
                 None \<Rightarrow> (calls, Inl EncodeFailed)
               | Some vector_a \<Rightarrow>
                   (case score_candidates env generate_reason surface_form descriptions_map
                           vector_a candidate_ids of
                      (calls_c, None) \<Rightarrow> (calls @ calls_c, Inl EncodeFailed)
                    | (calls_c, Some results) \<Rightarrow>
                        (calls @ calls_c,
                         Inr \<lparr>inferred_property = inferred_pid,
                              ranked_candidates = py_sort_reverse falcon_score results\<rparr>))))"

text \<open>
  The JSON payload of a request, an object whose fields are well typed (a string,
  lists of strings, an integer): each of the four fields may be missing; a payload
  with no key at all is the empty dict.
\<close>

record payload =
  p_surface_form :: "string option"
  p_context_window :: "string list option"
  p_candidates :: "string list option"
  p_limit :: "int option"
  p_other_keys :: bool

definition payload_empty :: "payload \<Rightarrow> bool" where
  "payload_empty p =
     (p_surface_form p = None \<and> p_context_window p = None \<and> p_candidates p = None
      \<and> p_limit p = None \<and> \<not> p_other_keys p)"

text \<open>The candidates \<open>disambiguate\<close> processes: \<open>candidate_ids[:min(limit, max_c)]\<close>.\<close>

definition candidates_to_process :: "'v env \<Rightarrow> payload \<Rightarrow> string list" where
  "candidates_to_process env p =
     (let candidate_ids = (case p_candidates p of None \<Rightarrow> [] | Some c \<Rightarrow> c);
          limit_req = (case p_limit p of None \<Rightarrow> 3 | Some l \<Rightarrow> l);
          max_c = max_candidates env;
          process_limit = min limit_req max_c
      in py_slice_to candidate_ids process_limit)"

text \<open>
  \<open>disambiguate\<close> (src/main.py). \<open>Inl e\<close> is the response
  \<open>{"error": ...}\<close> with status 500 that the handler's \<open>except\<close> builds from any
  exception; \<open>Inr r\<close> is the JSON result.
\<close>

definition disambiguate :: "'v env \<Rightarrow> payload \<Rightarrow> call list \<times> (error + result)" where
  "disambiguate env p =
     (if payload_empty p then ([], Inl BadRequest)
      else
        (let surface_form = or_empty (p_surface_form p);
             raw_context = (case p_context_window p of None \<Rightarrow> [] | Some c \<Rightarrow> c);
             to_process = candidates_to_process env p
         in if to_process = []
            then ([], Inr \<lparr>inferred_property = None, ranked_candidates = []\<rparr>)
            else
              (let clean_context = preprocess_context env raw_context;
                   context_str = join_space clean_context;
                   (calls_b, inferred_pid) = extract_inferred_property env clean_context;
                   (calls_d, descriptions_map) = fetch_candidate_descriptions env to_process;
                   input_text = surface_form @ '' '' @ context_str;
                   calls = calls_b @ calls_d @ [Encode input_text]
               in case encode env input_text of
                    None \<Rightarrow> (calls, Inl EncodeFailed)
                  | Some vector_a \<Rightarrow>
                      (case score_candidates env context_match_reason surface_form
                              descriptions_map vector_a to_process of
                         (calls_c, None) \<Rightarrow> (calls @ calls_c, Inl EncodeFailed)
                       | (calls_c, Some ranked_results) \<Rightarrow>
                           (calls @ calls_c,
                            Inr \<lparr>inferred_property = inferred_pid,
                                 ranked_candidates =
                                   py_sort_reverse falcon_score ranked_results\<rparr>)))))"

section \<open>Example resources\<close>

text \<open>
  A concrete resource bundle for the examples below. The embedding of a text is the
  text itself, and the similarity of a query to a candidate text is read from a table.
  The entity store knows every identifier \<open>q\<close> under the description
  \<open>about q\<close>; the predicate index answers every query with \<open>P119\<close>.
\<close>

definition demo_similarity :: "string \<Rightarrow> real" where
  "demo_similarity b =
     (if b = ''about Q90'' then 9 / 10
      else if b = ''about Q47746'' then 3 / 10
      else if b = ''about Q1'' then 40004 / 100000
      else if b = ''about Q2'' then 3 / 10
      else if b = ''about Q3'' then - 1 / 2
      else if b = ''about Q4'' then 3 / 2
      else if b = ''about Q5'' then 805 / 1000
      else if b = ''about Q6'' then 8 / 10
      else 0)"

definition demo_env :: "string env" where
  "demo_env =
     \<lparr>max_candidates = 10,
      keep_char = default_keep_char,
      stopwords = {''the'', ''i'', ''love'', ''is''},
      encode = (\<lambda>s. Some s),
      cos_sim = (\<lambda>a b. demo_similarity b),
      es_mget = (\<lambda>ids. Some (map (\<lambda>q. \<lparr>doc_id = q, doc_found = True,
                   doc_description = Some (''about '' @ q), doc_label = None\<rparr>) ids)),
      es_search = (\<lambda>q. Some [\<lparr>hit_pid = Some ''P119''\<rparr>])\<rparr>"

text \<open>The same resources with an entity store whose every lookup raises.\<close>

definition demo_env_down :: "string env" where
  "demo_env_down = demo_env\<lparr>es_mget := (\<lambda>ids. None)\<rparr>"

definition demo_payload :: "string list \<Rightarrow> payload" where
  "demo_payload cands =
     \<lparr>p_surface_form = Some ''Paris'', p_context_window = Some [''I'', ''love'', ''visiting''],
      p_candidates = Some cands, p_limit = None, p_other_keys = False\<rparr>"

definition empty_payload :: payload where
  "empty_payload =
     \<lparr>p_surface_form = None, p_context_window = None, p_candidates = None,
      p_limit = None, p_other_keys = False\<rparr>"

text \<open>A stopword file from which the loader builds the stopword set of the examples.\<close>

definition demo_stopword_file :: "string list" where
  "demo_stopword_file =
     [''# articles'' @ [CHR 0x0A], ''the'' @ [CHR 0x0A], [CHR 0x0A], ''  I '' @ [CHR 0x0A],
      ''Love'' @ [CHR 0x0A], ''is'']"

section \<open>Lower-casing and compression\<close>

lemma py_lower_char_not_upper: "\<not> py_isupper_char (py_lower_char c)"
  by (auto simp: py_lower_char_def py_isupper_char_def Let_def)

lemma py_lower_char_fixed: "\<not> py_isupper_char c \<Longrightarrow> py_lower_char c = c"
  by (simp add: py_lower_char_def)

lemma py_lower_no_upper: "c \<in> set (py_lower s) \<Longrightarrow> \<not> py_isupper_char c"
  by (auto simp: py_lower_def py_lower_char_not_upper)

lemma py_lower_fixed: "(\<And>c. c \<in> set s \<Longrightarrow> \<not> py_isupper_char c) \<Longrightarrow> py_lower s = s"
  by (induction s) (auto simp: py_lower_def py_lower_char_fixed)

lemma py_lower_idem: "py_lower (py_lower s) = py_lower s"
  by (rule py_lower_fixed) (rule py_lower_no_upper)

lemma clean_context_window_tokens:
  assumes "t \<in> set (clean_context_window env toks)"
  shows "t \<noteq> [] \<and> t \<notin> stopwords env
         \<and> (\<forall>c \<in> set t. keep_char env c \<and> \<not> py_isupper_char c)"
  using assms
  by (induction toks) (auto simp: Let_def py_lower_no_upper split: if_splits)

lemma clean_token_kept:
  assumes "\<forall>c \<in> set t. keep_char env c \<and> \<not> py_isupper_char c"
  shows "filter (keep_char env) (py_lower t) = t"
proof -
  have "py_lower t = t" using assms by (intro py_lower_fixed) simp
  moreover have "filter (keep_char env) t = t" using assms by (simp add: filter_id_conv)
  ultimately show ?thesis by simp
qed

lemma clean_context_window_fixed:
  "(\<And>t. t \<in> set toks \<Longrightarrow>
       t \<noteq> [] \<and> t \<notin> stopwords env
       \<and> (\<forall>c \<in> set t. keep_char env c \<and> \<not> py_isupper_char c)) \<Longrightarrow>
   clean_context_window env toks = toks"
proof (induction toks)
  case Nil
  show ?case by simp
next
  case (Cons t toks)
  have t: "t \<noteq> []" "t \<notin> stopwords env"
    "\<forall>c \<in> set t. keep_char env c \<and> \<not> py_isupper_char c"
    using Cons.prems[of t] by simp_all
  have rest: "clean_context_window env toks = toks"
  proof (rule Cons.IH)
    fix u assume "u \<in> set toks"
    then show "u \<noteq> [] \<and> u \<notin> stopwords env
         \<and> (\<forall>c \<in> set u. keep_char env c \<and> \<not> py_isupper_char c)"
      using Cons.prems[of u] by simp
  qed
  from t(1,2) clean_token_kept[OF t(3)] rest show ?case by (simp add: Let_def)
qed

lemma clean_context_window_idem:
  "clean_context_window env (clean_context_window env toks) = clean_context_window env toks"
  by (rule clean_context_window_fixed) (rule clean_context_window_tokens)

lemma preprocess_context_idem:
  "preprocess_context env (preprocess_context env toks) = preprocess_context env toks"
  by (simp add: preprocess_context_def)

lemma default_keep_char_lower:
  assumes "default_keep_char c" and "\<not> py_isupper_char c"
  shows "(97 \<le> (of_char c :: nat) \<and> (of_char c :: nat) \<le> 122)
         \<or> (48 \<le> (of_char c :: nat) \<and> (of_char c :: nat) \<le> 57) \<or> py_isspace_char c"
  using assms by (auto simp: default_keep_char_def py_isupper_char_def Let_def)

lemma load_stopwords_lower: "s \<in> load_stopwords lines \<Longrightarrow> py_lower s = s"
  by (induction lines) (auto simp: Let_def py_lower_idem split: if_splits)

lemma preprocess_context_not_stopword:
  assumes "stopwords env = load_stopwords lines" and "w \<in> set (preprocess_context env toks)"
  shows "w \<notin> stopwords env"
proof
  assume "w \<in> stopwords env"
  then have "py_lower w = w" using assms(1) load_stopwords_lower by metis
  moreover have "py_lower w \<notin> stopwords env"
    using assms(2) by (simp add: preprocess_context_def)
  ultimately show False using \<open>w \<in> stopwords env\<close> by simp
qed

section \<open>The descending stable sort\<close>

lemma mset_insort_desc: "mset (insort_desc key x ys) = add_mset x (mset ys)"
  by (induction ys) auto

lemma mset_py_sort_reverse: "mset (py_sort_reverse key xs) = mset xs"
  by (induction xs) (auto simp: py_sort_reverse_def mset_insort_desc)

lemma set_py_sort_reverse: "set (py_sort_reverse key xs) = set xs"
  by (metis mset_py_sort_reverse set_mset_mset)

lemma length_py_sort_reverse: "length (py_sort_reverse key xs) = length xs"
  by (metis mset_py_sort_reverse size_mset)

lemma filter_insort_desc:
  "filter (\<lambda>y. key y = k) (insort_desc key x ys) =
     (if key x = k then x # filter (\<lambda>y. key y = k) ys else filter (\<lambda>y. key y = k) ys)"
  by (induction ys) auto

lemma py_sort_reverse_stable:
  "filter (\<lambda>y. key y = k) (py_sort_reverse key xs) = filter (\<lambda>y. key y = k) xs"
  by (induction xs) (auto simp: py_sort_reverse_def filter_insort_desc)

lemma set_insort_desc: "set (insort_desc key x ys) = insert x (set ys)"
  by (metis mset_insort_desc set_mset_add_mset_insert set_mset_mset)

lemma sorted_insort_desc:
  "sorted_wrt (\<lambda>a b. key b \<le> key a) ys \<Longrightarrow>
     sorted_wrt (\<lambda>a b. key b \<le> key a) (insort_desc key x ys)"
  by (induction ys) (auto simp: set_insort_desc)

lemma sorted_py_sort_reverse: "sorted_wrt (\<lambda>a b. key b \<le> key a) (py_sort_reverse key xs)"
  by (induction xs) (auto simp: py_sort_reverse_def sorted_insort_desc)

section \<open>Rounding\<close>

lemma py_round_half_even_bounds:
  assumes "0 \<le> y" "y \<le> of_int n"
  shows "0 \<le> py_round_half_even y \<and> py_round_half_even y \<le> n"
proof -
  have f0: "0 \<le> \<lfloor>y\<rfloor>" using assms(1) by simp
  have fn: "\<lfloor>y\<rfloor> \<le> n" using assms(2) by (simp add: floor_le_iff)
  show ?thesis
  proof (cases "\<lfloor>y\<rfloor> = n")
    case True
    then have "y - of_int \<lfloor>y\<rfloor> \<le> 0" using assms(2) by simp
    then show ?thesis using True f0 by (simp add: py_round_half_even_def Let_def)
  next
    case False
    then have "\<lfloor>y\<rfloor> + 1 \<le> n" using fn by simp
    then show ?thesis using f0 fn by (simp add: py_round_half_even_def Let_def)
  qed
qed

lemma py_round_half_even_near: "\<bar>of_int (py_round_half_even y) - y\<bar> \<le> 1 / 2"
proof -
  have "of_int \<lfloor>y\<rfloor> \<le> y" "y < of_int \<lfloor>y\<rfloor> + 1" by linarith+
  then show ?thesis by (auto simp: py_round_half_even_def Let_def)
qed

lemma py_round4_unit: "0 \<le> x \<Longrightarrow> x \<le> 1 \<Longrightarrow> 0 \<le> py_round4 x \<and> py_round4 x \<le> 1"
  using py_round_half_even_bounds[of "x * 10000" 10000]
  by (simp add: py_round4_def)

lemma py_round4_near: "\<bar>py_round4 x - x\<bar> \<le> 1 / 20000"
  using py_round_half_even_near[of "x * 10000"]
  by (simp add: py_round4_def field_simps)

section \<open>Claims on compression\<close>

text \<open>
  C8. Compression is idempotent: compressing the output of a compression again gives
  that output unchanged. It holds of \<open>clean_context_window\<close>, for every cleaning
  character class and stopword set, and of \<open>preprocess_context\<close>.
\<close>

theorem compression_idempotent:
  "clean_context_window env (clean_context_window env toks) = clean_context_window env toks
   \<and> preprocess_context env (preprocess_context env toks) = preprocess_context env toks"
  by (simp add: clean_context_window_idem preprocess_context_idem)

text \<open>The raw window of the preprocessor's docstring, compressed once and twice.\<close>

theorem compression_idempotent_witness:
  "clean_context_window demo_env [''The'', ''Hilton'', ''hotel,'', ''is'', ''expensive'', ''.'']
     = [''hilton'', ''hotel'', ''expensive'']
   \<and> clean_context_window demo_env [''hilton'', ''hotel'', ''expensive'']
     = [''hilton'', ''hotel'', ''expensive'']
   \<and> preprocess_context demo_env [''The'', ''Hilton'', ''hotel,'', ''is'', ''expensive'', ''.'']
     = [''Hilton'', ''hotel,'', ''expensive'', ''.'']
   \<and> preprocess_context demo_env [''Hilton'', ''hotel,'', ''expensive'', ''.'']
     = [''Hilton'', ''hotel,'', ''expensive'', ''.'']"
proof -
  have a: "clean_context_window demo_env [''The'', ''Hilton'', ''hotel,'', ''is'', ''expensive'', ''.'']
     = [''hilton'', ''hotel'', ''expensive'']"
    by code_simp
  have b: "preprocess_context demo_env [''The'', ''Hilton'', ''hotel,'', ''is'', ''expensive'', ''.'']
     = [''Hilton'', ''hotel,'', ''expensive'', ''.'']"
    by code_simp
  show ?thesis
    using compression_idempotent[of demo_env
        "[''The'', ''Hilton'', ''hotel,'', ''is'', ''expensive'', ''.'']"] a b
    by simp
qed

text \<open>
  C4, as the code has it. Every token that \<open>clean_context_window\<close> returns is
  non-empty, has no upper-case character, consists of characters the cleaning pattern
  keeps (with the default pattern: \<open>a-z\<close>, digits, whitespace) and is not a
  stopword. \<open>preprocess_context\<close>, the compression of the \<open>disambiguate\<close>
  endpoint, returns in their order exactly the tokens of the raw window whose
  lower-cased form is not a stopword, unchanged; with a stopword set built by the
  loader, none of them is a stopword.
\<close>

theorem compressed_tokens_clean:
  "(t \<in> set (clean_context_window env toks) \<longrightarrow>
      t \<noteq> [] \<and> t \<notin> stopwords env
      \<and> (\<forall>c \<in> set t. \<not> py_isupper_char c \<and> keep_char env c)
      \<and> (keep_char env = default_keep_char \<longrightarrow>
           (\<forall>c \<in> set t. (97 \<le> (of_char c :: nat) \<and> (of_char c :: nat) \<le> 122)
                        \<or> (48 \<le> (of_char c :: nat) \<and> (of_char c :: nat) \<le> 57)
                        \<or> py_isspace_char c)))
   \<and> preprocess_context env toks = filter (\<lambda>w. py_lower w \<notin> stopwords env) toks
   \<and> (w \<in> set (preprocess_context env toks) \<longrightarrow>
        w \<in> set toks \<and> py_lower w \<notin> stopwords env
        \<and> (stopwords env = load_stopwords lines \<longrightarrow> w \<notin> stopwords env))"
proof -
  have base: "t \<noteq> [] \<and> t \<notin> stopwords env
      \<and> (\<forall>c \<in> set t. \<not> py_isupper_char c \<and> keep_char env c)"
    if "t \<in> set (clean_context_window env toks)"
    using clean_context_window_tokens[OF that] by blast
  have dflt: "\<forall>c \<in> set t. (97 \<le> (of_char c :: nat) \<and> (of_char c :: nat) \<le> 122)
                        \<or> (48 \<le> (of_char c :: nat) \<and> (of_char c :: nat) \<le> 57)
                        \<or> py_isspace_char c"
    if "t \<in> set (clean_context_window env toks)" and "keep_char env = default_keep_char"
  proof
    fix c assume "c \<in> set t"
    with base[OF that(1)] that(2) have "default_keep_char c" "\<not> py_isupper_char c"
      by auto
    then show "(97 \<le> (of_char c :: nat) \<and> (of_char c :: nat) \<le> 122)
                        \<or> (48 \<le> (of_char c :: nat) \<and> (of_char c :: nat) \<le> 57)
                        \<or> py_isspace_char c"
      by (rule default_keep_char_lower)
  qed
  have eq: "preprocess_context env toks = filter (\<lambda>w. py_lower w \<notin> stopwords env) toks"
    by (simp add: preprocess_context_def)
  have main: "w \<in> set toks \<and> py_lower w \<notin> stopwords env"
    if "w \<in> set (preprocess_context env toks)"
    using that by (simp add: preprocess_context_def)
  have nsw: "w \<notin> stopwords env"
    if "w \<in> set (preprocess_context env toks)" and "stopwords env = load_stopwords lines"
    using preprocess_context_not_stopword[OF that(2) that(1)] .
  show ?thesis using base dflt eq main nsw by blast
qed

theorem compressed_tokens_clean_witness:
  "''hotel'' \<in> set (clean_context_window demo_env [''The'', ''Hilton'', ''hotel,''])
   \<and> ''hotel'' \<noteq> [] \<and> ''hotel'' \<notin> stopwords demo_env
   \<and> list_all (\<lambda>c. \<not> py_isupper_char c \<and> keep_char demo_env c) ''hotel''
   \<and> keep_char demo_env = default_keep_char
   \<and> list_all (\<lambda>c. (97 \<le> (of_char c :: nat) \<and> (of_char c :: nat) \<le> 122)
                        \<or> (48 \<le> (of_char c :: nat) \<and> (of_char c :: nat) \<le> 57)
                        \<or> py_isspace_char c) ''hotel''
   \<and> preprocess_context demo_env [''The'', ''Hilton'', ''hotel,''] = [''Hilton'', ''hotel,'']
   \<and> stopwords demo_env = load_stopwords demo_stopword_file
   \<and> ''hotel,'' \<in> set (preprocess_context demo_env [''The'', ''Hilton'', ''hotel,''])
   \<and> ''hotel,'' \<in> set [''The'', ''Hilton'', ''hotel,'']
   \<and> py_lower ''hotel,'' \<notin> stopwords demo_env
   \<and> ''hotel,'' \<notin> stopwords demo_env"
proof -
  have a: "''hotel'' \<in> set (clean_context_window demo_env [''The'', ''Hilton'', ''hotel,''])"
    by code_simp
  have b: "''hotel,'' \<in> set (preprocess_context demo_env [''The'', ''Hilton'', ''hotel,''])"
    by code_simp
  have k: "keep_char demo_env = default_keep_char"
    by (simp add: demo_env_def)
  have f: "filter (\<lambda>w. py_lower w \<notin> stopwords demo_env) [''The'', ''Hilton'', ''hotel,'']
             = [''Hilton'', ''hotel,'']"
    by code_simp
  have l: "stopwords demo_env = load_stopwords demo_stopword_file"
    by code_simp
  show ?thesis
    using compressed_tokens_clean[of "''hotel''" demo_env "[''The'', ''Hilton'', ''hotel,'']"
        "''hotel,''" demo_stopword_file] a b k f l
    by (simp add: list_all_iff)
qed

text \<open>
  The endpoint's compression keeps a token with an upper-case letter and a comma, and
  an empty token.
\<close>

theorem compressed_tokens_clean_counterexample:
  "preprocess_context demo_env [''The'', ''Hilton,'', ''''] = [''Hilton,'', '''']
   \<and> py_isupper_char CHR ''H'' \<and> \<not> keep_char demo_env CHR '',''"
  by code_simp

section \<open>The scoring loop and the pipelines\<close>

text \<open>
  The scoring loop returns one entry per candidate, in the order of the candidates;
  the entry of a candidate holds the rounded, clamped similarity of the query vector
  to the embedding of the candidate's description (of the surface form when the
  description is empty), and the rationale of the clamped similarity.
\<close>

lemma score_candidates_Some:
  "score_candidates env reason sf dm va qids = (calls, Some rs) \<Longrightarrow>
     map cand_id rs = qids
     \<and> (\<forall>c \<in> set rs. \<exists>vb.
           encode env (if or_empty (dm (cand_id c)) \<noteq> [] then or_empty (dm (cand_id c)) else sf)
             = Some vb
           \<and> falcon_score c = py_round4 (max 0 (min 1 (cos_sim env va vb)))
           \<and> semantic_reason c = reason (max 0 (min 1 (cos_sim env va vb))))"
proof (induction qids arbitrary: calls rs)
  case Nil
  then show ?case by simp
next
  case (Cons qid rest)
  then show ?case
    by (fastforce simp: Let_def split: option.splits prod.splits if_splits)
qed

lemma score_candidates_calls:
  "list_all is_scoring_call (fst (score_candidates env reason sf dm va qids))"
  by (induction qids) (auto simp: Let_def split: option.splits prod.splits)

lemma score_candidates_total:
  assumes enc: "\<And>t. encode env t \<noteq> None"
  shows "\<exists>rs. snd (score_candidates env reason sf dm va qids) = Some rs"
proof (induction qids)
  case Nil
  show ?case by simp
next
  case (Cons qid rest)
  define enc_text where "enc_text = (if or_empty (dm qid) \<noteq> [] then or_empty (dm qid) else sf)"
  obtain vb where vb: "encode env enc_text = Some vb"
    using enc[of enc_text] by auto
  obtain calls rs where tl: "score_candidates env reason sf dm va rest = (calls, Some rs)"
    using Cons.IH by (cases "score_candidates env reason sf dm va rest") auto
  show ?case using vb tl by (simp add: Let_def enc_text_def)
qed

lemma score_candidates_cases:
  assumes "\<And>t. encode env t \<noteq> None"
  obtains calls rs where "score_candidates env reason sf dm va qids = (calls, Some rs)"
  using score_candidates_total[OF assms, of reason sf dm va qids]
  by (cases "score_candidates env reason sf dm va qids") auto

lemma disambiguate_Inr:
  assumes "snd (disambiguate env p) = Inr r"
  shows "\<exists>va calls rs.
           (candidates_to_process env p \<noteq> [] \<longrightarrow>
              encode env (or_empty (p_surface_form p) @ '' '' @ join_space (preprocess_context env
                (case p_context_window p of None \<Rightarrow> [] | Some c \<Rightarrow> c))) = Some va)
           \<and> score_candidates env context_match_reason (or_empty (p_surface_form p))
               (snd (fetch_candidate_descriptions env (candidates_to_process env p))) va
               (candidates_to_process env p) = (calls, Some rs)
           \<and> ranked_candidates r = py_sort_reverse falcon_score rs"
proof (cases "candidates_to_process env p = []")
  case True
  with assms have "ranked_candidates r = []"
    by (auto simp: disambiguate_def Let_def split: if_splits)
  with True show ?thesis by (simp add: py_sort_reverse_def)
next
  case False
  with assms show ?thesis
    by (auto simp: disambiguate_def Let_def split: if_splits option.splits prod.splits)
qed

lemma run_Inr:
  assumes "snd (run env sf ctx qids) = Inr r"
  shows "\<exists>va calls rs.
           (qids \<noteq> [] \<longrightarrow>
              encode env (py_strip (sf @ '' '' @ join_space (clean_context_window env ctx)))
                = Some va)
           \<and> score_candidates env generate_reason sf (snd (fetch_descriptions env qids)) va qids
               = (calls, Some rs)
           \<and> ranked_candidates r = py_sort_reverse falcon_score rs"
proof (cases "qids = []")
  case True
  with assms have "ranked_candidates r = []"
    by (auto simp: run_def Let_def split: if_splits prod.splits)
  with True show ?thesis by (simp add: py_sort_reverse_def)
next
  case False
  with assms show ?thesis
    by (auto simp: run_def Let_def split: if_splits option.splits prod.splits)
qed

lemma disambiguate_total:
  assumes "\<not> payload_empty p" and enc: "\<And>t. encode env t \<noteq> None"
  shows "\<exists>r. snd (disambiguate env p) = Inr r"
proof (cases "candidates_to_process env p = []")
  case True
  with assms(1) show ?thesis by (simp add: disambiguate_def Let_def)
next
  case False
  obtain cb pid where b: "extract_inferred_property env
      (preprocess_context env (case p_context_window p of None \<Rightarrow> [] | Some c \<Rightarrow> c)) = (cb, pid)"
    by (cases "extract_inferred_property env
      (preprocess_context env (case p_context_window p of None \<Rightarrow> [] | Some c \<Rightarrow> c))")
  obtain cd dm where d: "fetch_candidate_descriptions env (candidates_to_process env p) = (cd, dm)"
    by (cases "fetch_candidate_descriptions env (candidates_to_process env p)")
  obtain va where a: "encode env (or_empty (p_surface_form p) @ '' '' @
      join_space (preprocess_context env (case p_context_window p of None \<Rightarrow> [] | Some c \<Rightarrow> c))) = Some va"
    using enc by (meson option.exhaust)
  obtain cc rs where c: "score_candidates env context_match_reason (or_empty (p_surface_form p)) dm va
      (candidates_to_process env p) = (cc, Some rs)"
    using enc by (rule score_candidates_cases)
  show ?thesis using assms(1) False b d a c
    by (simp add: disambiguate_def Let_def)
qed

lemma run_total:
  assumes enc: "\<And>t. encode env t \<noteq> None"
  shows "\<exists>r. snd (run env sf ctx qids) = Inr r"
proof (cases "qids = []")
  case True
  then show ?thesis by (simp add: run_def Let_def split: prod.splits)
next
  case False
  obtain cb pid where b: "infer_property_from_ngrams env (clean_context_window env ctx) = (cb, pid)"
    by (cases "infer_property_from_ngrams env (clean_context_window env ctx)")
  obtain cd dm where d: "fetch_descriptions env qids = (cd, dm)"
    by (cases "fetch_descriptions env qids")
  obtain va where a: "encode env (py_strip (sf @ '' '' @ join_space (clean_context_window env ctx))) = Some va"
    using enc by (meson option.exhaust)
  obtain cc rs where c: "score_candidates env generate_reason sf dm va qids = (cc, Some rs)"
    using enc by (rule score_candidates_cases)
  show ?thesis using False b d a c
    by (simp add: run_def Let_def)
qed

text \<open>What a result of either pipeline is made of.\<close>

lemma disambiguate_ranked:
  assumes "snd (disambiguate env p) = Inr r"
  obtains rs va where
    "map cand_id rs = candidates_to_process env p"
    "ranked_candidates r = py_sort_reverse falcon_score rs"
    "candidates_to_process env p \<noteq> [] \<longrightarrow>
       encode env (or_empty (p_surface_form p) @ '' '' @ join_space (preprocess_context env
         (case p_context_window p of None \<Rightarrow> [] | Some c \<Rightarrow> c))) = Some va"
    "\<forall>c \<in> set rs. \<exists>vb.
        encode env
          (if or_empty (snd (fetch_candidate_descriptions env (candidates_to_process env p))
                          (cand_id c)) \<noteq> []
           then or_empty (snd (fetch_candidate_descriptions env (candidates_to_process env p))
                          (cand_id c))
           else or_empty (p_surface_form p)) = Some vb
        \<and> falcon_score c = py_round4 (max 0 (min 1 (cos_sim env va vb)))
        \<and> semantic_reason c = context_match_reason (max 0 (min 1 (cos_sim env va vb)))"
proof -
  obtain va calls rs where h:
    "candidates_to_process env p \<noteq> [] \<longrightarrow>
       encode env (or_empty (p_surface_form p) @ '' '' @ join_space (preprocess_context env
         (case p_context_window p of None \<Rightarrow> [] | Some c \<Rightarrow> c))) = Some va"
    "score_candidates env context_match_reason (or_empty (p_surface_form p))
       (snd (fetch_candidate_descriptions env (candidates_to_process env p))) va
       (candidates_to_process env p) = (calls, Some rs)"
    "ranked_candidates r = py_sort_reverse falcon_score rs"
    using disambiguate_Inr[OF assms] by blast
  from score_candidates_Some[OF h(2)] h(1,3) that show ?thesis by blast
qed

lemma run_ranked:
  assumes "snd (run env sf ctx qids) = Inr r"
  obtains rs va where
    "map cand_id rs = qids"
    "ranked_candidates r = py_sort_reverse falcon_score rs"
    "qids \<noteq> [] \<longrightarrow>
       encode env (py_strip (sf @ '' '' @ join_space (clean_context_window env ctx))) = Some va"
    "\<forall>c \<in> set rs. \<exists>vb.
        encode env
          (if or_empty (snd (fetch_descriptions env qids) (cand_id c)) \<noteq> []
           then or_empty (snd (fetch_descriptions env qids) (cand_id c))
           else sf) = Some vb
        \<and> falcon_score c = py_round4 (max 0 (min 1 (cos_sim env va vb)))
        \<and> semantic_reason c = generate_reason (max 0 (min 1 (cos_sim env va vb)))"
proof -
  obtain va calls rs where h:
    "qids \<noteq> [] \<longrightarrow>
       encode env (py_strip (sf @ '' '' @ join_space (clean_context_window env ctx))) = Some va"
    "score_candidates env generate_reason sf (snd (fetch_descriptions env qids)) va qids
       = (calls, Some rs)"
    "ranked_candidates r = py_sort_reverse falcon_score rs"
    using run_Inr[OF assms] by blast
  from score_candidates_Some[OF h(2)] h(1,3) that show ?thesis by blast
qed

text \<open>The result of a pipeline from the results of its phases.\<close>

lemma disambiguate_scored:
  assumes "\<not> payload_empty p" and "candidates_to_process env p = qs" and "qs \<noteq> []"
    and "encode env (or_empty (p_surface_form p) @ '' '' @ join_space (preprocess_context env
           (case p_context_window p of None \<Rightarrow> [] | Some c \<Rightarrow> c))) = Some va"
    and "snd (score_candidates env context_match_reason (or_empty (p_surface_form p))
           (snd (fetch_candidate_descriptions env qs)) va qs) = Some rs"
  shows "snd (disambiguate env p) =
           Inr \<lparr>inferred_property = snd (extract_inferred_property env (preprocess_context env
                   (case p_context_window p of None \<Rightarrow> [] | Some c \<Rightarrow> c))),
                ranked_candidates = py_sort_reverse falcon_score rs\<rparr>"
  using assms
  by (auto simp: disambiguate_def Let_def split: prod.splits option.splits)

lemma run_scored:
  assumes "qids \<noteq> []"
    and "encode env (py_strip (sf @ '' '' @ join_space (clean_context_window env ctx))) = Some va"
    and "snd (score_candidates env generate_reason sf (snd (fetch_descriptions env qids)) va qids)
           = Some rs"
  shows "snd (run env sf ctx qids) =
           Inr \<lparr>inferred_property = snd (infer_property_from_ngrams env (clean_context_window env ctx)),
                ranked_candidates = py_sort_reverse falcon_score rs\<rparr>"
  using assms
  by (auto simp: run_def Let_def split: prod.splits option.splits)

section \<open>Example requests\<close>

lemma demo_disambiguate_limit:
  "disambiguate demo_env ((demo_payload [''Q90'', ''Q1''])\<lparr>p_limit := Some 1\<rparr>) =
     ([EsSearch ''visiting'', EsMget [''Q90''], Encode ''Paris visiting'', Encode ''about Q90''],
      Inr \<lparr>inferred_property = Some ''P119'',
           ranked_candidates =
             [\<lparr>cand_id = ''Q90'', falcon_score = 9 / 10,
               semantic_reason = ''Context match: 90%''\<rparr>]\<rparr>)"
  by code_simp

lemma demo_run_rounded:
  "run demo_env ''Paris'' [] [''Q1''] =
     ([EsMget [''Q1''], Encode ''Paris'', Encode ''about Q1''],
      Inr \<lparr>inferred_property = None,
           ranked_candidates =
             [\<lparr>cand_id = ''Q1'', falcon_score = 2 / 5,
               semantic_reason = ''Moderate Context Overlap (40%)''\<rparr>]\<rparr>)"
  by code_simp

lemma demo_run_tie:
  "snd (run demo_env ''Paris'' [] [''Q47746'', ''Q90'', ''Q2'']) =
     Inr \<lparr>inferred_property = None,
          ranked_candidates =
            [\<lparr>cand_id = ''Q90'', falcon_score = 9 / 10,
              semantic_reason = ''Strong Context Match (90%)''\<rparr>,
             \<lparr>cand_id = ''Q47746'', falcon_score = 3 / 10,
              semantic_reason = ''Low Context Similarity''\<rparr>,
             \<lparr>cand_id = ''Q2'', falcon_score = 3 / 10,
              semantic_reason = ''Low Context Similarity''\<rparr>]\<rparr>"
proof -
  have a: "encode demo_env (py_strip (''Paris'' @ '' '' @ join_space (clean_context_window demo_env [])))
             = Some ''Paris''"
    by code_simp
  have s: "snd (score_candidates demo_env generate_reason ''Paris''
                 (snd (fetch_descriptions demo_env [''Q47746'', ''Q90'', ''Q2''])) ''Paris''
                 [''Q47746'', ''Q90'', ''Q2'']) =
             Some [\<lparr>cand_id = ''Q47746'', falcon_score = 3 / 10,
                     semantic_reason = ''Low Context Similarity''\<rparr>,
                   \<lparr>cand_id = ''Q90'', falcon_score = 9 / 10,
                     semantic_reason = ''Strong Context Match (90%)''\<rparr>,
                   \<lparr>cand_id = ''Q2'', falcon_score = 3 / 10,
                     semantic_reason = ''Low Context Similarity''\<rparr>]"
    by code_simp
  have o: "py_sort_reverse falcon_score
             [\<lparr>cand_id = ''Q47746'', falcon_score = 3 / 10,
                     semantic_reason = ''Low Context Similarity''\<rparr>,
                   \<lparr>cand_id = ''Q90'', falcon_score = 9 / 10,
                     semantic_reason = ''Strong Context Match (90%)''\<rparr>,
                   \<lparr>cand_id = ''Q2'', falcon_score = 3 / 10,
                     semantic_reason = ''Low Context Similarity''\<rparr>] =
            [\<lparr>cand_id = ''Q90'', falcon_score = 9 / 10,
              semantic_reason = ''Strong Context Match (90%)''\<rparr>,
             \<lparr>cand_id = ''Q47746'', falcon_score = 3 / 10,
              semantic_reason = ''Low Context Similarity''\<rparr>,
             \<lparr>cand_id = ''Q2'', falcon_score = 3 / 10,
              semantic_reason = ''Low Context Similarity''\<rparr>]"
    by code_simp
  have i: "snd (infer_property_from_ngrams demo_env (clean_context_window demo_env [])) = None"
    by code_simp
  have n: "[''Q47746'', ''Q90'', ''Q2''] \<noteq> []" by simp
  show ?thesis
    using run_scored[OF n a s] o i by simp
qed

lemma demo_disambiguate_above:
  "snd (disambiguate demo_env (demo_payload [''Q5''])) =
     Inr \<lparr>inferred_property = Some ''P119'',
          ranked_candidates =
            [\<lparr>cand_id = ''Q5'', falcon_score = 161 / 200,
              semantic_reason = ''Context match: 80%''\<rparr>]\<rparr>"
  by code_simp

lemma demo_disambiguate_at:
  "snd (disambiguate demo_env (demo_payload [''Q6''])) =
     Inr \<lparr>inferred_property = Some ''P119'',
          ranked_candidates =
            [\<lparr>cand_id = ''Q6'', falcon_score = 4 / 5,
              semantic_reason = ''Context match: 80%''\<rparr>]\<rparr>"
  by code_simp

section \<open>Rounding and thresholds\<close>

lemma py_round_half_even_le: "y \<le> of_int n \<Longrightarrow> py_round_half_even y \<le> n"
proof -
  assume h: "y \<le> of_int n"
  have fn: "\<lfloor>y\<rfloor> \<le> n" using h by (simp add: floor_le_iff)
  show ?thesis
  proof (cases "\<lfloor>y\<rfloor> = n")
    case True
    then have "y - of_int \<lfloor>y\<rfloor> \<le> 0" using h by simp
    then show ?thesis using True by (simp add: py_round_half_even_def Let_def)
  next
    case False
    then have "\<lfloor>y\<rfloor> + 1 \<le> n" using fn by simp
    then show ?thesis using fn by (simp add: py_round_half_even_def Let_def)
  qed
qed

lemma py_round_half_even_ge: "of_int n \<le> y \<Longrightarrow> n \<le> py_round_half_even y"
proof -
  assume h: "of_int n \<le> y"
  have "n \<le> \<lfloor>y\<rfloor>" using h by (simp add: le_floor_iff)
  then show ?thesis by (simp add: py_round_half_even_def Let_def)
qed

lemma py_round4_le: "x \<le> of_int n / 10000 \<Longrightarrow> py_round4 x \<le> of_int n / 10000"
  using py_round_half_even_le[of "x * 10000" n]
  by (simp add: py_round4_def field_simps)

lemma py_round4_ge: "of_int n / 10000 \<le> x \<Longrightarrow> of_int n / 10000 \<le> py_round4 x"
  using py_round_half_even_ge[of n "x * 10000"]
  by (simp add: py_round4_def field_simps)

lemma py_round4_thresholds:
  "(4 / 5 < py_round4 x \<longrightarrow> 4 / 5 < x) \<and> (py_round4 x < 4 / 5 \<longrightarrow> x < 4 / 5)
   \<and> (2 / 5 < py_round4 x \<longrightarrow> 2 / 5 < x) \<and> (py_round4 x < 2 / 5 \<longrightarrow> x < 2 / 5)"
proof -
  have a: "py_round4 x \<le> 4 / 5" if "x \<le> 4 / 5"
    using py_round4_le[of x 8000] that by simp
  have b: "4 / 5 \<le> py_round4 x" if "4 / 5 \<le> x"
    using py_round4_ge[of 8000 x] that by simp
  have c: "py_round4 x \<le> 2 / 5" if "x \<le> 2 / 5"
    using py_round4_le[of x 4000] that by simp
  have d: "2 / 5 \<le> py_round4 x" if "2 / 5 \<le> x"
    using py_round4_ge[of 4000 x] that by simp
  have 1: "4 / 5 < py_round4 x \<longrightarrow> 4 / 5 < x" using a by (cases "x \<le> 4 / 5") auto
  have 2: "py_round4 x < 4 / 5 \<longrightarrow> x < 4 / 5" using b by (cases "4 / 5 \<le> x") auto
  have 3: "2 / 5 < py_round4 x \<longrightarrow> 2 / 5 < x" using c by (cases "x \<le> 2 / 5") auto
  have 4: "py_round4 x < 2 / 5 \<longrightarrow> x < 2 / 5" using d by (cases "2 / 5 \<le> x") auto
  show ?thesis using 1 2 3 4 by blast
qed

lemma py_round4_clamped:
  fixes s :: real
  defines "x \<equiv> py_round4 (max 0 (min 1 s))"
  shows "0 \<le> x \<and> x \<le> 1 \<and> (s < 0 \<longrightarrow> x = 0) \<and> (1 < s \<longrightarrow> x = 1)
         \<and> (\<exists>k::int. 0 \<le> k \<and> k \<le> 10000 \<and> x = of_int k / 10000)
         \<and> \<bar>x - max 0 (min 1 s)\<bar> \<le> 1 / 20000"
proof -
  have u: "0 \<le> max 0 (min 1 s)" "max 0 (min 1 s) \<le> 1" by auto
  have b: "0 \<le> py_round_half_even (max 0 (min 1 s) * 10000)
           \<and> py_round_half_even (max 0 (min 1 s) * 10000) \<le> 10000"
    using u by (intro py_round_half_even_bounds) auto
  have r0: "py_round4 0 = 0" by (simp add: py_round4_def py_round_half_even_def)
  have r1: "py_round4 1 = 1" by (simp add: py_round4_def py_round_half_even_def)
  have lo: "s < 0 \<longrightarrow> x = 0" using r0 by (auto simp: x_def max_def min_def)
  have hi: "1 < s \<longrightarrow> x = 1" using r1 by (auto simp: x_def max_def min_def)
  have k: "\<exists>k::int. 0 \<le> k \<and> k \<le> 10000 \<and> x = of_int k / 10000"
    using b unfolding x_def py_round4_def by blast
  show ?thesis
    using py_round4_unit[OF u] lo hi k py_round4_near[of "max 0 (min 1 s)"]
    unfolding x_def by blast
qed

section \<open>Claims on the ranked candidates\<close>

text \<open>
  C2. The ranked candidates of a result have exactly one entry per identifier of the
  truncated candidate list: the same number of entries, the same identifiers with the
  same multiplicities, hence the same set of identifiers. For the endpoint the
  truncated list is \<open>candidates_to_process\<close>; \<open>FalconPipeline.run\<close> ranks
  the list it is given. A request gets a result whenever its payload is not empty
  and the embedding model does not raise.
\<close>

theorem ranked_ids_are_truncated_input:
  "(snd (disambiguate env p) = Inr r \<longrightarrow>
      length (ranked_candidates r) = length (candidates_to_process env p)
      \<and> mset (map cand_id (ranked_candidates r)) = mset (candidates_to_process env p)
      \<and> set (map cand_id (ranked_candidates r)) = set (candidates_to_process env p))
   \<and> (snd (run env sf ctx qids) = Inr r' \<longrightarrow>
      length (ranked_candidates r') = length qids
      \<and> mset (map cand_id (ranked_candidates r')) = mset qids
      \<and> set (map cand_id (ranked_candidates r')) = set qids)
   \<and> (\<not> payload_empty p \<and> (\<forall>t. encode env t \<noteq> None) \<longrightarrow>
        (\<exists>res. snd (disambiguate env p) = Inr res))
   \<and> ((\<forall>t. encode env t \<noteq> None) \<longrightarrow> (\<exists>res. snd (run env sf ctx qids) = Inr res))"
proof -
  have a: "mset (map cand_id (ranked_candidates r)) = mset (candidates_to_process env p)"
    if h: "snd (disambiguate env p) = Inr r"
  proof -
    from disambiguate_ranked[OF h] obtain rs where
      "map cand_id rs = candidates_to_process env p"
      "ranked_candidates r = py_sort_reverse falcon_score rs"
      by blast
    then show ?thesis
      by (metis mset_map mset_py_sort_reverse)
  qed
  have b: "mset (map cand_id (ranked_candidates r')) = mset qids"
    if h: "snd (run env sf ctx qids) = Inr r'"
  proof -
    from run_ranked[OF h] obtain rs where
      "map cand_id rs = qids"
      "ranked_candidates r' = py_sort_reverse falcon_score rs"
      by blast
    then show ?thesis
      by (metis mset_map mset_py_sort_reverse)
  qed
  have len: "length xs = length ys \<and> set (map cand_id xs) = set ys"
    if "mset (map cand_id xs) = mset ys" for xs :: "ranked_candidate list" and ys
    using that by (metis length_map mset_eq_length mset_eq_setD)
  show ?thesis
    using a b len disambiguate_total[of p env] run_total[of env sf ctx qids] by blast
qed

text \<open>
  A request with two candidates and limit 1: one candidate is ranked. A call of the
  pipeline on one candidate.
\<close>

theorem ranked_ids_are_truncated_input_witness:
  "snd (disambiguate demo_env ((demo_payload [''Q90'', ''Q1''])\<lparr>p_limit := Some 1\<rparr>)) =
     Inr \<lparr>inferred_property = Some ''P119'',
          ranked_candidates =
            [\<lparr>cand_id = ''Q90'', falcon_score = 9 / 10,
              semantic_reason = ''Context match: 90%''\<rparr>]\<rparr>
   \<and> candidates_to_process demo_env ((demo_payload [''Q90'', ''Q1''])\<lparr>p_limit := Some 1\<rparr>)
       = [''Q90'']
   \<and> length [\<lparr>cand_id = ''Q90'', falcon_score = 9 / 10,
               semantic_reason = ''Context match: 90%''\<rparr>] = length [''Q90'']
   \<and> set (map cand_id [\<lparr>cand_id = ''Q90'', falcon_score = 9 / 10,
               semantic_reason = ''Context match: 90%''\<rparr>]) = set [''Q90'']
   \<and> snd (run demo_env ''Paris'' [] [''Q1'']) =
     Inr \<lparr>inferred_property = None,
          ranked_candidates =
            [\<lparr>cand_id = ''Q1'', falcon_score = 2 / 5,
              semantic_reason = ''Moderate Context Overlap (40%)''\<rparr>]\<rparr>
   \<and> set (map cand_id [\<lparr>cand_id = ''Q1'', falcon_score = 2 / 5,
              semantic_reason = ''Moderate Context Overlap (40%)''\<rparr>]) = set [''Q1'']"
proof -
  have c: "candidates_to_process demo_env ((demo_payload [''Q90'', ''Q1''])\<lparr>p_limit := Some 1\<rparr>)
       = [''Q90'']"
    by code_simp
  show ?thesis
    using ranked_ids_are_truncated_input[where env = demo_env
        and p = "(demo_payload [''Q90'', ''Q1''])\<lparr>p_limit := Some 1\<rparr>"
        and sf = "''Paris''" and ctx = "[]" and qids = "[''Q1'']"]
      c demo_disambiguate_limit demo_run_rounded
    by simp
qed

text \<open>
  C3. Every score of a ranked candidate is the similarity of the embedding of the
  request text to the embedding of the candidate's text, clamped into \<open>[0, 1]\<close> (a
  negative similarity gives 0, one above 1 gives 1) and then rounded to four decimal
  digits: it lies in \<open>[0, 1]\<close>, is a multiple of \<open>1/10000\<close>, and is within
  \<open>1/20000\<close> of the clamped similarity.
\<close>

theorem scores_clamped_and_rounded:
  "(snd (disambiguate env p) = Inr r \<and> c \<in> set (ranked_candidates r) \<longrightarrow>
      (\<exists>va vb.
          encode env (or_empty (p_surface_form p) @ '' '' @ join_space (preprocess_context env
            (case p_context_window p of None \<Rightarrow> [] | Some w \<Rightarrow> w))) = Some va
          \<and> encode env
              (if or_empty (snd (fetch_candidate_descriptions env (candidates_to_process env p))
                              (cand_id c)) \<noteq> []
               then or_empty (snd (fetch_candidate_descriptions env (candidates_to_process env p))
                              (cand_id c))
               else or_empty (p_surface_form p)) = Some vb
          \<and> falcon_score c = py_round4 (max 0 (min 1 (cos_sim env va vb)))
          \<and> (cos_sim env va vb < 0 \<longrightarrow> falcon_score c = 0)
          \<and> (1 < cos_sim env va vb \<longrightarrow> falcon_score c = 1)
          \<and> \<bar>falcon_score c - max 0 (min 1 (cos_sim env va vb))\<bar> \<le> 1 / 20000)
      \<and> 0 \<le> falcon_score c \<and> falcon_score c \<le> 1
      \<and> (\<exists>k::int. 0 \<le> k \<and> k \<le> 10000 \<and> falcon_score c = of_int k / 10000))
   \<and> (snd (run env sf ctx qids) = Inr r' \<and> c' \<in> set (ranked_candidates r') \<longrightarrow>
      (\<exists>va vb.
          encode env (py_strip (sf @ '' '' @ join_space (clean_context_window env ctx))) = Some va
          \<and> encode env
              (if or_empty (snd (fetch_descriptions env qids) (cand_id c')) \<noteq> []
               then or_empty (snd (fetch_descriptions env qids) (cand_id c'))
               else sf) = Some vb
          \<and> falcon_score c' = py_round4 (max 0 (min 1 (cos_sim env va vb)))
          \<and> (cos_sim env va vb < 0 \<longrightarrow> falcon_score c' = 0)
          \<and> (1 < cos_sim env va vb \<longrightarrow> falcon_score c' = 1)
          \<and> \<bar>falcon_score c' - max 0 (min 1 (cos_sim env va vb))\<bar> \<le> 1 / 20000)
      \<and> 0 \<le> falcon_score c' \<and> falcon_score c' \<le> 1
      \<and> (\<exists>k::int. 0 \<le> k \<and> k \<le> 10000 \<and> falcon_score c' = of_int k / 10000))"
proof -
  have d: "(\<exists>va vb.
          encode env (or_empty (p_surface_form p) @ '' '' @ join_space (preprocess_context env
            (case p_context_window p of None \<Rightarrow> [] | Some w \<Rightarrow> w))) = Some va
          \<and> encode env
              (if or_empty (snd (fetch_candidate_descriptions env (candidates_to_process env p))
                              (cand_id c)) \<noteq> []
               then or_empty (snd (fetch_candidate_descriptions env (candidates_to_process env p))
                              (cand_id c))
               else or_empty (p_surface_form p)) = Some vb
          \<and> falcon_score c = py_round4 (max 0 (min 1 (cos_sim env va vb)))
          \<and> (cos_sim env va vb < 0 \<longrightarrow> falcon_score c = 0)
          \<and> (1 < cos_sim env va vb \<longrightarrow> falcon_score c = 1)
          \<and> \<bar>falcon_score c - max 0 (min 1 (cos_sim env va vb))\<bar> \<le> 1 / 20000)
      \<and> 0 \<le> falcon_score c \<and> falcon_score c \<le> 1
      \<and> (\<exists>k::int. 0 \<le> k \<and> k \<le> 10000 \<and> falcon_score c = of_int k / 10000)"
    if h: "snd (disambiguate env p) = Inr r" and m: "c \<in> set (ranked_candidates r)"
  proof -
    from disambiguate_ranked[OF h] obtain rs va where f:
      "map cand_id rs = candidates_to_process env p"
      "ranked_candidates r = py_sort_reverse falcon_score rs"
      "candidates_to_process env p \<noteq> [] \<longrightarrow>
         encode env (or_empty (p_surface_form p) @ '' '' @ join_space (preprocess_context env
           (case p_context_window p of None \<Rightarrow> [] | Some c \<Rightarrow> c))) = Some va"
      "\<forall>c \<in> set rs. \<exists>vb.
        encode env
          (if or_empty (snd (fetch_candidate_descriptions env (candidates_to_process env p))
                          (cand_id c)) \<noteq> []
           then or_empty (snd (fetch_candidate_descriptions env (candidates_to_process env p))
                          (cand_id c))
           else or_empty (p_surface_form p)) = Some vb
        \<and> falcon_score c = py_round4 (max 0 (min 1 (cos_sim env va vb)))
        \<and> semantic_reason c = context_match_reason (max 0 (min 1 (cos_sim env va vb)))"
      by blast
    have crs: "c \<in> set rs" using m f(2) by (simp add: set_py_sort_reverse)
    then have "rs \<noteq> []" by auto
    then have ne: "candidates_to_process env p \<noteq> []" using f(1) by auto
    from f(4) crs obtain vb where vb:
      "encode env
          (if or_empty (snd (fetch_candidate_descriptions env (candidates_to_process env p))
                          (cand_id c)) \<noteq> []
           then or_empty (snd (fetch_candidate_descriptions env (candidates_to_process env p))
                          (cand_id c))
           else or_empty (p_surface_form p)) = Some vb"
      "falcon_score c = py_round4 (max 0 (min 1 (cos_sim env va vb)))"
      by blast
    show ?thesis
      using f(3) ne vb py_round4_clamped[of "cos_sim env va vb"] by auto
  qed
  have e: "(\<exists>va vb.
          encode env (py_strip (sf @ '' '' @ join_space (clean_context_window env ctx))) = Some va
          \<and> encode env
              (if or_empty (snd (fetch_descriptions env qids) (cand_id c')) \<noteq> []
               then or_empty (snd (fetch_descriptions env qids) (cand_id c'))
               else sf) = Some vb
          \<and> falcon_score c' = py_round4 (max 0 (min 1 (cos_sim env va vb)))
          \<and> (cos_sim env va vb < 0 \<longrightarrow> falcon_score c' = 0)
          \<and> (1 < cos_sim env va vb \<longrightarrow> falcon_score c' = 1)
          \<and> \<bar>falcon_score c' - max 0 (min 1 (cos_sim env va vb))\<bar> \<le> 1 / 20000)
      \<and> 0 \<le> falcon_score c' \<and> falcon_score c' \<le> 1
      \<and> (\<exists>k::int. 0 \<le> k \<and> k \<le> 10000 \<and> falcon_score c' = of_int k / 10000)"
    if h: "snd (run env sf ctx qids) = Inr r'" and m: "c' \<in> set (ranked_candidates r')"
  proof -
    from run_ranked[OF h] obtain rs va where f:
      "map cand_id rs = qids"
      "ranked_candidates r' = py_sort_reverse falcon_score rs"
      "qids \<noteq> [] \<longrightarrow>
         encode env (py_strip (sf @ '' '' @ join_space (clean_context_window env ctx))) = Some va"
      "\<forall>c \<in> set rs. \<exists>vb.
        encode env
          (if or_empty (snd (fetch_descriptions env qids) (cand_id c)) \<noteq> []
           then or_empty (snd (fetch_descriptions env qids) (cand_id c))
           else sf) = Some vb
        \<and> falcon_score c = py_round4 (max 0 (min 1 (cos_sim env va vb)))
        \<and> semantic_reason c = generate_reason (max 0 (min 1 (cos_sim env va vb)))"
      by blast
    have crs: "c' \<in> set rs" using m f(2) by (simp add: set_py_sort_reverse)
    then have "rs \<noteq> []" by auto
    then have ne: "qids \<noteq> []" using f(1) by auto
    from f(4) crs obtain vb where vb:
      "encode env
          (if or_empty (snd (fetch_descriptions env qids) (cand_id c')) \<noteq> []
           then or_empty (snd (fetch_descriptions env qids) (cand_id c'))
           else sf) = Some vb"
      "falcon_score c' = py_round4 (max 0 (min 1 (cos_sim env va vb)))"
      by blast
    show ?thesis
      using f(3) ne vb py_round4_clamped[of "cos_sim env va vb"] by auto
  qed
  show ?thesis using d e by blast
qed

text \<open>
  A candidate ranked by the endpoint, and one ranked by the pipeline whose similarity
  0.40004 is rounded to 0.4.
\<close>

theorem scores_clamped_and_rounded_witness:
  "snd (disambiguate demo_env ((demo_payload [''Q90'', ''Q1''])\<lparr>p_limit := Some 1\<rparr>)) =
     Inr \<lparr>inferred_property = Some ''P119'',
          ranked_candidates =
            [\<lparr>cand_id = ''Q90'', falcon_score = 9 / 10,
              semantic_reason = ''Context match: 90%''\<rparr>]\<rparr>
   \<and> \<lparr>cand_id = ''Q90'', falcon_score = 9 / 10, semantic_reason = ''Context match: 90%''\<rparr>
       \<in> set (ranked_candidates \<lparr>inferred_property = Some ''P119'',
          ranked_candidates =
            [\<lparr>cand_id = ''Q90'', falcon_score = 9 / 10,
              semantic_reason = ''Context match: 90%''\<rparr>]\<rparr>)
   \<and> (\<exists>k::int. 0 \<le> k \<and> k \<le> 10000 \<and>
         falcon_score \<lparr>cand_id = ''Q90'', falcon_score = 9 / 10,
                       semantic_reason = ''Context match: 90%''\<rparr> = of_int k / 10000)
   \<and> snd (run demo_env ''Paris'' [] [''Q1'']) =
     Inr \<lparr>inferred_property = None,
          ranked_candidates =
            [\<lparr>cand_id = ''Q1'', falcon_score = 2 / 5,
              semantic_reason = ''Moderate Context Overlap (40%)''\<rparr>]\<rparr>
   \<and> \<lparr>cand_id = ''Q1'', falcon_score = 2 / 5,
        semantic_reason = ''Moderate Context Overlap (40%)''\<rparr>
       \<in> set (ranked_candidates \<lparr>inferred_property = None,
          ranked_candidates =
            [\<lparr>cand_id = ''Q1'', falcon_score = 2 / 5,
              semantic_reason = ''Moderate Context Overlap (40%)''\<rparr>]\<rparr>)
   \<and> (\<exists>k::int. 0 \<le> k \<and> k \<le> 10000 \<and>
         falcon_score \<lparr>cand_id = ''Q1'', falcon_score = 2 / 5,
                       semantic_reason = ''Moderate Context Overlap (40%)''\<rparr> = of_int k / 10000)
   \<and> demo_similarity ''about Q1'' = 40004 / 100000"
proof -
  have s: "demo_similarity ''about Q1'' = 40004 / 100000" by code_simp
  show ?thesis
    using scores_clamped_and_rounded[where env = demo_env
        and p = "(demo_payload [''Q90'', ''Q1''])\<lparr>p_limit := Some 1\<rparr>"
        and r = "\<lparr>inferred_property = Some ''P119'',
          ranked_candidates =
            [\<lparr>cand_id = ''Q90'', falcon_score = 9 / 10,
              semantic_reason = ''Context match: 90%''\<rparr>]\<rparr>"
        and c = "\<lparr>cand_id = ''Q90'', falcon_score = 9 / 10,
                  semantic_reason = ''Context match: 90%''\<rparr>"
        and sf = "''Paris''" and ctx = "[]" and qids = "[''Q1'']"
        and r' = "\<lparr>inferred_property = None,
          ranked_candidates =
            [\<lparr>cand_id = ''Q1'', falcon_score = 2 / 5,
              semantic_reason = ''Moderate Context Overlap (40%)''\<rparr>]\<rparr>"
        and c' = "\<lparr>cand_id = ''Q1'', falcon_score = 2 / 5,
                   semantic_reason = ''Moderate Context Overlap (40%)''\<rparr>"]
      demo_disambiguate_limit demo_run_rounded s
    by simp
qed

text \<open>
  C9. The ranking is a stable sort of the scored candidates into descending score
  order. The ranked list is sorted by descending score; it is a rearrangement of the
  entries scored in the order of the truncated candidate list; and for every score
  the entries with that score stand in the ranked list in the order in which they
  were scored, so their identifiers stand in the order of the candidate list.
\<close>

theorem ranking_sort_stable:
  "(snd (disambiguate env p) = Inr r \<longrightarrow>
      sorted_wrt (\<lambda>a b. falcon_score b \<le> falcon_score a) (ranked_candidates r)
      \<and> subseq (map cand_id (filter (\<lambda>c. falcon_score c = v) (ranked_candidates r)))
               (candidates_to_process env p)
      \<and> (\<exists>rs. map cand_id rs = candidates_to_process env p
            \<and> mset (ranked_candidates r) = mset rs
            \<and> (\<forall>w. filter (\<lambda>c. falcon_score c = w) (ranked_candidates r)
                      = filter (\<lambda>c. falcon_score c = w) rs)))
   \<and> (snd (run env sf ctx qids) = Inr r' \<longrightarrow>
      sorted_wrt (\<lambda>a b. falcon_score b \<le> falcon_score a) (ranked_candidates r')
      \<and> subseq (map cand_id (filter (\<lambda>c. falcon_score c = v) (ranked_candidates r'))) qids
      \<and> (\<exists>rs. map cand_id rs = qids
            \<and> mset (ranked_candidates r') = mset rs
            \<and> (\<forall>w. filter (\<lambda>c. falcon_score c = w) (ranked_candidates r')
                      = filter (\<lambda>c. falcon_score c = w) rs)))"
proof -
  have st: "sorted_wrt (\<lambda>a b. falcon_score b \<le> falcon_score a) ranked
      \<and> subseq (map cand_id (filter (\<lambda>c. falcon_score c = v) ranked)) ids
      \<and> (\<exists>rs. map cand_id rs = ids \<and> mset ranked = mset rs
            \<and> (\<forall>w. filter (\<lambda>c. falcon_score c = w) ranked
                      = filter (\<lambda>c. falcon_score c = w) rs))"
    if "map cand_id rs = ids" and "ranked = py_sort_reverse falcon_score rs"
    for rs ranked :: "ranked_candidate list" and ids
  proof -
    have 1: "sorted_wrt (\<lambda>a b. falcon_score b \<le> falcon_score a) ranked"
      using that(2) by (simp add: sorted_py_sort_reverse)
    have 2: "filter (\<lambda>c. falcon_score c = w) ranked = filter (\<lambda>c. falcon_score c = w) rs" for w
      using that(2) by (simp add: py_sort_reverse_stable)
    have "subseq (map cand_id (filter (\<lambda>c. falcon_score c = v) rs)) (map cand_id rs)"
      by (intro subseq_map subseq_filter_left)
    then have 3: "subseq (map cand_id (filter (\<lambda>c. falcon_score c = v) ranked)) ids"
      using 2[of v] that(1) by simp
    have 4: "mset ranked = mset rs" using that(2) by (simp add: mset_py_sort_reverse)
    show ?thesis using 1 2 3 4 that(1) by blast
  qed
  have a: "sorted_wrt (\<lambda>a b. falcon_score b \<le> falcon_score a) (ranked_candidates r)
      \<and> subseq (map cand_id (filter (\<lambda>c. falcon_score c = v) (ranked_candidates r)))
               (candidates_to_process env p)
      \<and> (\<exists>rs. map cand_id rs = candidates_to_process env p
            \<and> mset (ranked_candidates r) = mset rs
            \<and> (\<forall>w. filter (\<lambda>c. falcon_score c = w) (ranked_candidates r)
                      = filter (\<lambda>c. falcon_score c = w) rs))"
    if h: "snd (disambiguate env p) = Inr r"
  proof -
    from disambiguate_ranked[OF h] obtain rs where
      "map cand_id rs = candidates_to_process env p"
      "ranked_candidates r = py_sort_reverse falcon_score rs"
      by blast
    then show ?thesis by (rule st)
  qed
  have b: "sorted_wrt (\<lambda>a b. falcon_score b \<le> falcon_score a) (ranked_candidates r')
      \<and> subseq (map cand_id (filter (\<lambda>c. falcon_score c = v) (ranked_candidates r'))) qids
      \<and> (\<exists>rs. map cand_id rs = qids
            \<and> mset (ranked_candidates r') = mset rs
            \<and> (\<forall>w. filter (\<lambda>c. falcon_score c = w) (ranked_candidates r')
                      = filter (\<lambda>c. falcon_score c = w) rs))"
    if h: "snd (run env sf ctx qids) = Inr r'"
  proof -
    from run_ranked[OF h] obtain rs where
      "map cand_id rs = qids"
      "ranked_candidates r' = py_sort_reverse falcon_score rs"
      by blast
    then show ?thesis by (rule st)
  qed
  show ?thesis using a b by blast
qed

text \<open>
  Three candidates of which the first and the third tie at 0.3 and the second scores
  0.9: the second moves to the front and the tied ones keep their order.
\<close>

theorem ranking_sort_stable_witness:
  "snd (run demo_env ''Paris'' [] [''Q47746'', ''Q90'', ''Q2'']) =
     Inr \<lparr>inferred_property = None,
          ranked_candidates =
            [\<lparr>cand_id = ''Q90'', falcon_score = 9 / 10,
              semantic_reason = ''Strong Context Match (90%)''\<rparr>,
             \<lparr>cand_id = ''Q47746'', falcon_score = 3 / 10,
              semantic_reason = ''Low Context Similarity''\<rparr>,
             \<lparr>cand_id = ''Q2'', falcon_score = 3 / 10,
              semantic_reason = ''Low Context Similarity''\<rparr>]\<rparr>
   \<and> sorted_wrt (\<lambda>a b. falcon_score b \<le> falcon_score a)
            [\<lparr>cand_id = ''Q90'', falcon_score = 9 / 10,
              semantic_reason = ''Strong Context Match (90%)''\<rparr>,
             \<lparr>cand_id = ''Q47746'', falcon_score = 3 / 10,
              semantic_reason = ''Low Context Similarity''\<rparr>,
             \<lparr>cand_id = ''Q2'', falcon_score = 3 / 10,
              semantic_reason = ''Low Context Similarity''\<rparr>]
   \<and> subseq [''Q47746'', ''Q2''] [''Q47746'', ''Q90'', ''Q2'']"
proof -
  have f: "map cand_id (filter (\<lambda>c. falcon_score c = 3 / 10)
            [\<lparr>cand_id = ''Q90'', falcon_score = 9 / 10,
              semantic_reason = ''Strong Context Match (90%)''\<rparr>,
             \<lparr>cand_id = ''Q47746'', falcon_score = 3 / 10,
              semantic_reason = ''Low Context Similarity''\<rparr>,
             \<lparr>cand_id = ''Q2'', falcon_score = 3 / 10,
              semantic_reason = ''Low Context Similarity''\<rparr>]) = [''Q47746'', ''Q2'']"
    by simp
  have t: "sorted_wrt (\<lambda>a b. falcon_score b \<le> falcon_score a)
            [\<lparr>cand_id = ''Q90'', falcon_score = 9 / 10,
              semantic_reason = ''Strong Context Match (90%)''\<rparr>,
             \<lparr>cand_id = ''Q47746'', falcon_score = 3 / 10,
              semantic_reason = ''Low Context Similarity''\<rparr>,
             \<lparr>cand_id = ''Q2'', falcon_score = 3 / 10,
              semantic_reason = ''Low Context Similarity''\<rparr>]
      \<and> subseq (map cand_id (filter (\<lambda>c. falcon_score c = 3 / 10)
            [\<lparr>cand_id = ''Q90'', falcon_score = 9 / 10,
              semantic_reason = ''Strong Context Match (90%)''\<rparr>,
             \<lparr>cand_id = ''Q47746'', falcon_score = 3 / 10,
              semantic_reason = ''Low Context Similarity''\<rparr>,
             \<lparr>cand_id = ''Q2'', falcon_score = 3 / 10,
              semantic_reason = ''Low Context Similarity''\<rparr>])) [''Q47746'', ''Q90'', ''Q2'']"
    using ranking_sort_stable[where env = demo_env and sf = "''Paris''" and ctx = "[]"
        and qids = "[''Q47746'', ''Q90'', ''Q2'']" and v = "3 / 10"
        and r' = "\<lparr>inferred_property = None,
          ranked_candidates =
            [\<lparr>cand_id = ''Q90'', falcon_score = 9 / 10,
              semantic_reason = ''Strong Context Match (90%)''\<rparr>,
             \<lparr>cand_id = ''Q47746'', falcon_score = 3 / 10,
              semantic_reason = ''Low Context Similarity''\<rparr>,
             \<lparr>cand_id = ''Q2'', falcon_score = 3 / 10,
              semantic_reason = ''Low Context Similarity''\<rparr>]\<rparr>"]
      demo_run_tie
    by (simp del: sorted_wrt.simps filter.simps)
  show ?thesis using t f demo_run_tie by (simp del: sorted_wrt.simps subseq_Cons2_iff)
qed

section \<open>Claims on the rationale\<close>

text \<open>
  C5, as the code has it. The rationale of a candidate is chosen from the clamped
  similarity \<open>s\<close> before it is rounded; the returned score is \<open>s\<close> rounded.
  \<open>FalconPipeline.run\<close> has three tiers: \<open>s > 0.8\<close> strong,
  \<open>0.4 < s \<le> 0.8\<close> moderate, \<open>s \<le> 0.4\<close> low. The \<open>disambiguate\<close>
  endpoint has one threshold: \<open>s > 0.4\<close> gives the context match rationale,
  \<open>s \<le> 0.4\<close> the low overlap one. Rounding does not cross a threshold: a
  returned score above (below) 0.8 or 0.4 comes from a similarity above (below) it,
  so only a returned score of exactly 0.8 or 0.4 may carry the rationale of the tier
  above.
\<close>

theorem rationale_thresholds:
  "(snd (run env sf ctx qids) = Inr r \<and> c \<in> set (ranked_candidates r) \<longrightarrow>
      (\<exists>va vb.
          encode env (py_strip (sf @ '' '' @ join_space (clean_context_window env ctx))) = Some va
          \<and> encode env
              (if or_empty (snd (fetch_descriptions env qids) (cand_id c)) \<noteq> []
               then or_empty (snd (fetch_descriptions env qids) (cand_id c))
               else sf) = Some vb
          \<and> falcon_score c = py_round4 (max 0 (min 1 (cos_sim env va vb)))
          \<and> semantic_reason c = generate_reason (max 0 (min 1 (cos_sim env va vb)))))
   \<and> (snd (disambiguate env p) = Inr r' \<and> c' \<in> set (ranked_candidates r') \<longrightarrow>
      (\<exists>va vb.
          encode env (or_empty (p_surface_form p) @ '' '' @ join_space (preprocess_context env
            (case p_context_window p of None \<Rightarrow> [] | Some w \<Rightarrow> w))) = Some va
          \<and> encode env
              (if or_empty (snd (fetch_candidate_descriptions env (candidates_to_process env p))
                              (cand_id c')) \<noteq> []
               then or_empty (snd (fetch_candidate_descriptions env (candidates_to_process env p))
                              (cand_id c'))
               else or_empty (p_surface_form p)) = Some vb
          \<and> falcon_score c' = py_round4 (max 0 (min 1 (cos_sim env va vb)))
          \<and> semantic_reason c' = context_match_reason (max 0 (min 1 (cos_sim env va vb)))))
   \<and> (4 / 5 < s \<longrightarrow>
        generate_reason s = ''Strong Context Match ('' @ str_int (py_int (s * 100)) @ ''%)'')
   \<and> (2 / 5 < s \<and> s \<le> 4 / 5 \<longrightarrow>
        generate_reason s = ''Moderate Context Overlap ('' @ str_int (py_int (s * 100)) @ ''%)'')
   \<and> (s \<le> 2 / 5 \<longrightarrow> generate_reason s = ''Low Context Similarity'')
   \<and> (2 / 5 < s \<longrightarrow>
        context_match_reason s = ''Context match: '' @ str_int (py_int (s * 100)) @ ''%'')
   \<and> (s \<le> 2 / 5 \<longrightarrow> context_match_reason s = ''Low context overlap'')
   \<and> (4 / 5 < py_round4 s \<longrightarrow> 4 / 5 < s) \<and> (py_round4 s < 4 / 5 \<longrightarrow> s < 4 / 5)
   \<and> (2 / 5 < py_round4 s \<longrightarrow> 2 / 5 < s) \<and> (py_round4 s < 2 / 5 \<longrightarrow> s < 2 / 5)"
proof -
  have a: "\<exists>va vb.
          encode env (py_strip (sf @ '' '' @ join_space (clean_context_window env ctx))) = Some va
          \<and> encode env
              (if or_empty (snd (fetch_descriptions env qids) (cand_id c)) \<noteq> []
               then or_empty (snd (fetch_descriptions env qids) (cand_id c))
               else sf) = Some vb
          \<and> falcon_score c = py_round4 (max 0 (min 1 (cos_sim env va vb)))
          \<and> semantic_reason c = generate_reason (max 0 (min 1 (cos_sim env va vb)))"
    if h: "snd (run env sf ctx qids) = Inr r" and m: "c \<in> set (ranked_candidates r)"
  proof -
    from run_ranked[OF h] obtain rs va where f:
      "map cand_id rs = qids"
      "ranked_candidates r = py_sort_reverse falcon_score rs"
      "qids \<noteq> [] \<longrightarrow>
         encode env (py_strip (sf @ '' '' @ join_space (clean_context_window env ctx))) = Some va"
      "\<forall>c \<in> set rs. \<exists>vb.
        encode env
          (if or_empty (snd (fetch_descriptions env qids) (cand_id c)) \<noteq> []
           then or_empty (snd (fetch_descriptions env qids) (cand_id c))
           else sf) = Some vb
        \<and> falcon_score c = py_round4 (max 0 (min 1 (cos_sim env va vb)))
        \<and> semantic_reason c = generate_reason (max 0 (min 1 (cos_sim env va vb)))"
      by blast
    have crs: "c \<in> set rs" using m f(2) by (simp add: set_py_sort_reverse)
    then have "rs \<noteq> []" by auto
    then have ne: "qids \<noteq> []" using f(1) by auto
    show ?thesis using f(3,4) ne crs by blast
  qed
  have b: "\<exists>va vb.
          encode env (or_empty (p_surface_form p) @ '' '' @ join_space (preprocess_context env
            (case p_context_window p of None \<Rightarrow> [] | Some w \<Rightarrow> w))) = Some va
          \<and> encode env
              (if or_empty (snd (fetch_candidate_descriptions env (candidates_to_process env p))
                              (cand_id c')) \<noteq> []
               then or_empty (snd (fetch_candidate_descriptions env (candidates_to_process env p))
                              (cand_id c'))
               else or_empty (p_surface_form p)) = Some vb
          \<and> falcon_score c' = py_round4 (max 0 (min 1 (cos_sim env va vb)))
          \<and> semantic_reason c' = context_match_reason (max 0 (min 1 (cos_sim env va vb)))"
    if h: "snd (disambiguate env p) = Inr r'" and m: "c' \<in> set (ranked_candidates r')"
  proof -
    from disambiguate_ranked[OF h] obtain rs va where f:
      "map cand_id rs = candidates_to_process env p"
      "ranked_candidates r' = py_sort_reverse falcon_score rs"
      "candidates_to_process env p \<noteq> [] \<longrightarrow>
         encode env (or_empty (p_surface_form p) @ '' '' @ join_space (preprocess_context env
           (case p_context_window p of None \<Rightarrow> [] | Some c \<Rightarrow> c))) = Some va"
      "\<forall>c \<in> set rs. \<exists>vb.
        encode env
          (if or_empty (snd (fetch_candidate_descriptions env (candidates_to_process env p))
                          (cand_id c)) \<noteq> []
           then or_empty (snd (fetch_candidate_descriptions env (candidates_to_process env p))
                          (cand_id c))
           else or_empty (p_surface_form p)) = Some vb
        \<and> falcon_score c = py_round4 (max 0 (min 1 (cos_sim env va vb)))
        \<and> semantic_reason c = context_match_reason (max 0 (min 1 (cos_sim env va vb)))"
      by blast
    have crs: "c' \<in> set rs" using m f(2) by (simp add: set_py_sort_reverse)
    then have "rs \<noteq> []" by auto
    then have ne: "candidates_to_process env p \<noteq> []" using f(1) by auto
    show ?thesis using f(3,4) ne crs by blast
  qed
  have g: "(4 / 5 < s \<longrightarrow>
        generate_reason s = ''Strong Context Match ('' @ str_int (py_int (s * 100)) @ ''%)'')
   \<and> (2 / 5 < s \<and> s \<le> 4 / 5 \<longrightarrow>
        generate_reason s = ''Moderate Context Overlap ('' @ str_int (py_int (s * 100)) @ ''%)'')
   \<and> (s \<le> 2 / 5 \<longrightarrow> generate_reason s = ''Low Context Similarity'')"
    by (simp add: generate_reason_def)
  have k: "(2 / 5 < s \<longrightarrow>
        context_match_reason s = ''Context match: '' @ str_int (py_int (s * 100)) @ ''%'')
   \<and> (s \<le> 2 / 5 \<longrightarrow> context_match_reason s = ''Low context overlap'')"
    by (simp add: context_match_reason_def)
  show ?thesis using a b g k py_round4_thresholds[of s] by blast
qed

text \<open>
  A candidate of the pipeline with similarity 0.40004, in the moderate tier, and a
  candidate of the endpoint.
\<close>

theorem rationale_thresholds_witness:
  "snd (run demo_env ''Paris'' [] [''Q1'']) =
     Inr \<lparr>inferred_property = None,
          ranked_candidates =
            [\<lparr>cand_id = ''Q1'', falcon_score = 2 / 5,
              semantic_reason = ''Moderate Context Overlap (40%)''\<rparr>]\<rparr>
   \<and> snd (disambiguate demo_env ((demo_payload [''Q90'', ''Q1''])\<lparr>p_limit := Some 1\<rparr>)) =
     Inr \<lparr>inferred_property = Some ''P119'',
          ranked_candidates =
            [\<lparr>cand_id = ''Q90'', falcon_score = 9 / 10,
              semantic_reason = ''Context match: 90%''\<rparr>]\<rparr>
   \<and> (2 / 5 :: real) < 40004 / 100000 \<and> (40004 / 100000 :: real) \<le> 4 / 5
   \<and> generate_reason (40004 / 100000) =
       ''Moderate Context Overlap ('' @ str_int (py_int (40004 / 100000 * 100)) @ ''%)''
   \<and> context_match_reason (40004 / 100000) =
       ''Context match: '' @ str_int (py_int (40004 / 100000 * 100)) @ ''%''
   \<and> str_int (py_int (40004 / 100000 * 100)) = ''40''
   \<and> py_round4 (40004 / 100000) = 2 / 5"
proof -
  have n: "str_int (py_int (40004 / 100000 * 100)) = ''40''" by code_simp
  have q: "py_round4 (40004 / 100000) = 2 / 5" by code_simp
  show ?thesis
    using rationale_thresholds[where env = demo_env
        and p = "(demo_payload [''Q90'', ''Q1''])\<lparr>p_limit := Some 1\<rparr>"
        and r' = "\<lparr>inferred_property = Some ''P119'',
          ranked_candidates =
            [\<lparr>cand_id = ''Q90'', falcon_score = 9 / 10,
              semantic_reason = ''Context match: 90%''\<rparr>]\<rparr>"
        and c' = "\<lparr>cand_id = ''Q90'', falcon_score = 9 / 10,
                  semantic_reason = ''Context match: 90%''\<rparr>"
        and sf = "''Paris''" and ctx = "[]" and qids = "[''Q1'']"
        and r = "\<lparr>inferred_property = None,
          ranked_candidates =
            [\<lparr>cand_id = ''Q1'', falcon_score = 2 / 5,
              semantic_reason = ''Moderate Context Overlap (40%)''\<rparr>]\<rparr>"
        and c = "\<lparr>cand_id = ''Q1'', falcon_score = 2 / 5,
                   semantic_reason = ''Moderate Context Overlap (40%)''\<rparr>"
        and s = "40004 / 100000"]
      demo_disambiguate_limit demo_run_rounded n q
    by simp
qed

text \<open>
  The pipeline returns the score 0.4 with the moderate rationale. The endpoint gives
  the scores 0.805 and 0.8 the same rationale.
\<close>

theorem rationale_thresholds_counterexample:
  "snd (run demo_env ''Paris'' [] [''Q1'']) =
     Inr \<lparr>inferred_property = None,
          ranked_candidates =
            [\<lparr>cand_id = ''Q1'', falcon_score = 2 / 5,
              semantic_reason = ''Moderate Context Overlap (40%)''\<rparr>]\<rparr>
   \<and> snd (disambiguate demo_env (demo_payload [''Q5''])) =
     Inr \<lparr>inferred_property = Some ''P119'',
          ranked_candidates =
            [\<lparr>cand_id = ''Q5'', falcon_score = 161 / 200,
              semantic_reason = ''Context match: 80%''\<rparr>]\<rparr>
   \<and> snd (disambiguate demo_env (demo_payload [''Q6''])) =
     Inr \<lparr>inferred_property = Some ''P119'',
          ranked_candidates =
            [\<lparr>cand_id = ''Q6'', falcon_score = 4 / 5,
              semantic_reason = ''Context match: 80%''\<rparr>]\<rparr>
   \<and> (4 / 5 :: real) < 161 / 200"
  using demo_run_rounded demo_disambiguate_above demo_disambiguate_at by simp

section \<open>The description map and the truncation\<close>

lemma all_empty_apply:
  "all_empty qids m = (\<lambda>q. if q \<in> set qids then Some [] else m q)"
  by (induction qids arbitrary: m) (auto simp: fun_eq_iff)

lemma dom_collect_docs: "dom (collect_docs docs m) = dom m \<union> doc_id ` set docs"
  by (induction docs arbitrary: m) auto



lemma py_slice_to_Nil: "py_slice_to [] n = []"
  by (simp add: py_slice_to_def)


lemma disambiguate_scoring_call:
  assumes "\<not> payload_empty p" and "candidates_to_process env p \<noteq> []"
  shows "list_ex is_scoring_call (fst (disambiguate env p))"
  using assms
  by (auto simp: disambiguate_def Let_def list_ex_iff split: prod.splits option.splits)

section \<open>Claims on empty and missing inputs\<close>

text \<open>
  C1, as the code has it. A request to the endpoint whose payload is not empty and
  whose truncated candidate list is empty gets exactly the empty result, whatever its
  context window, and no collaborator is called. The empty payload gets the error
  response. \<open>FalconPipeline.run\<close> on an empty candidate list has already run
  property inference: it returns no ranked candidate together with the inferred
  property, which is that of the top hit of the property search, and none when the
  compressed context is empty or the search has no hit or raises; it makes no call of
  the description resolver or of the embedding model.
\<close>

theorem empty_candidates_empty_result:
  "(\<not> payload_empty p \<and> candidates_to_process env p = [] \<longrightarrow>
      disambiguate env p = ([], Inr \<lparr>inferred_property = None, ranked_candidates = []\<rparr>))
   \<and> (payload_empty p0 \<longrightarrow>
        candidates_to_process env p0 = [] \<and> disambiguate env p0 = ([], Inl BadRequest))
   \<and> run env sf ctx [] =
       (if clean_context_window env ctx = []
        then ([], Inr \<lparr>inferred_property = None, ranked_candidates = []\<rparr>)
        else ([EsSearch (join_space (clean_context_window env ctx))],
              Inr \<lparr>inferred_property =
                     top_hit_pid (es_search env (join_space (clean_context_window env ctx))),
                   ranked_candidates = []\<rparr>))
   \<and> list_all (\<lambda>c. \<not> is_resolver_call c \<and> \<not> is_scoring_call c) (fst (run env sf ctx []))
   \<and> top_hit_pid None = None \<and> top_hit_pid (Some []) = None
   \<and> top_hit_pid (Some (h # hs)) = hit_pid h"
proof -
  have a: "disambiguate env p = ([], Inr \<lparr>inferred_property = None, ranked_candidates = []\<rparr>)"
    if "\<not> payload_empty p" and "candidates_to_process env p = []"
    using that by (simp add: disambiguate_def Let_def)
  have b: "candidates_to_process env p0 = [] \<and> disambiguate env p0 = ([], Inl BadRequest)"
    if "payload_empty p0"
    using that
    by (simp add: disambiguate_def payload_empty_def candidates_to_process_def py_slice_to_Nil)
  have c: "run env sf ctx [] =
       (if clean_context_window env ctx = []
        then ([], Inr \<lparr>inferred_property = None, ranked_candidates = []\<rparr>)
        else ([EsSearch (join_space (clean_context_window env ctx))],
              Inr \<lparr>inferred_property =
                     top_hit_pid (es_search env (join_space (clean_context_window env ctx))),
                   ranked_candidates = []\<rparr>))"
    by (simp add: run_def infer_property_from_ngrams_def Let_def)
  have d: "list_all (\<lambda>c. \<not> is_resolver_call c \<and> \<not> is_scoring_call c) (fst (run env sf ctx []))"
    by (simp add: c)
  have e: "top_hit_pid None = None \<and> top_hit_pid (Some []) = None
   \<and> top_hit_pid (Some (h # hs)) = hit_pid h"
    by (simp add: top_hit_pid_def)
  show ?thesis using a b c d e by blast
qed

text \<open>
  A request truncated to no candidate by limit 0, the empty payload, and the pipeline
  on a context that is all stopwords and punctuation.
\<close>

theorem empty_candidates_empty_result_witness:
  "\<not> payload_empty ((demo_payload [''Q90''])\<lparr>p_limit := Some 0\<rparr>)
   \<and> candidates_to_process demo_env ((demo_payload [''Q90''])\<lparr>p_limit := Some 0\<rparr>) = []
   \<and> disambiguate demo_env ((demo_payload [''Q90''])\<lparr>p_limit := Some 0\<rparr>) =
       ([], Inr \<lparr>inferred_property = None, ranked_candidates = []\<rparr>)
   \<and> payload_empty empty_payload
   \<and> disambiguate demo_env empty_payload = ([], Inl BadRequest)
   \<and> clean_context_window demo_env [''The'', ''.''] = []
   \<and> run demo_env ''Paris'' [''The'', ''.''] [] =
       ([], Inr \<lparr>inferred_property = None, ranked_candidates = []\<rparr>)"
proof -
  have a: "\<not> payload_empty ((demo_payload [''Q90''])\<lparr>p_limit := Some 0\<rparr>)"
    by code_simp
  have b: "candidates_to_process demo_env ((demo_payload [''Q90''])\<lparr>p_limit := Some 0\<rparr>) = []"
    by code_simp
  have c: "payload_empty empty_payload"
    by code_simp
  have d: "clean_context_window demo_env [''The'', ''.''] = []"
    by code_simp
  show ?thesis
    using empty_candidates_empty_result[where env = demo_env
        and p = "(demo_payload [''Q90''])\<lparr>p_limit := Some 0\<rparr>" and ?p0.0 = empty_payload
        and sf = "''Paris''" and ctx = "[''The'', ''.'']"] a b c d
    by simp
qed

text \<open>
  The pipeline on an empty candidate list and the context \<open>buried in\<close> returns the
  property it inferred, after a search of the predicate index.
\<close>

theorem empty_candidates_empty_result_counterexample:
  "run demo_env ''Paris'' [''buried'', ''in''] [] =
     ([EsSearch ''buried in''],
      Inr \<lparr>inferred_property = Some ''P119'', ranked_candidates = []\<rparr>)
   \<and> candidates_to_process demo_env empty_payload = []
   \<and> disambiguate demo_env empty_payload = ([], Inl BadRequest)"
  by code_simp

text \<open>
  C7, as the code has it. A request without candidates is short-circuited, with no
  call of any collaborator, to the empty result, or to the error response when the
  payload is empty. A request without a surface form is not: the surface form
  defaults to the empty string, the request is processed as if it carried that, and
  whenever it has a candidate to process the embedding model is called.
\<close>

theorem missing_fields:
  "(p_candidates p = None \<longrightarrow>
      disambiguate env p =
        (if payload_empty p then ([], Inl BadRequest)
         else ([], Inr \<lparr>inferred_property = None, ranked_candidates = []\<rparr>)))
   \<and> (p_surface_form q = None \<and> \<not> payload_empty q \<longrightarrow>
        disambiguate env q = disambiguate env (q\<lparr>p_surface_form := Some []\<rparr>))
   \<and> (\<not> payload_empty q \<and> candidates_to_process env q \<noteq> [] \<longrightarrow>
        list_ex is_scoring_call (fst (disambiguate env q)))"
proof -
  have a: "disambiguate env p =
        (if payload_empty p then ([], Inl BadRequest)
         else ([], Inr \<lparr>inferred_property = None, ranked_candidates = []\<rparr>))"
    if "p_candidates p = None"
    using that
    by (simp add: disambiguate_def candidates_to_process_def py_slice_to_Nil Let_def)
  have b: "disambiguate env q = disambiguate env (q\<lparr>p_surface_form := Some []\<rparr>)"
    if "p_surface_form q = None" and "\<not> payload_empty q"
  proof -
    have 1: "\<not> payload_empty (q\<lparr>p_surface_form := Some []\<rparr>)"
      by (simp add: payload_empty_def)
    have 2: "candidates_to_process env (q\<lparr>p_surface_form := Some []\<rparr>)
               = candidates_to_process env q"
      by (simp add: candidates_to_process_def)
    show ?thesis
      using that 1 2 by (simp add: disambiguate_def or_empty_def)
  qed
  show ?thesis using a b disambiguate_scoring_call[of q env] by blast
qed

text \<open>A request without candidates, and a request without a surface form.\<close>

theorem missing_fields_witness:
  "p_candidates ((demo_payload [''Q90''])\<lparr>p_candidates := None\<rparr>) = None
   \<and> disambiguate demo_env ((demo_payload [''Q90''])\<lparr>p_candidates := None\<rparr>) =
       ([], Inr \<lparr>inferred_property = None, ranked_candidates = []\<rparr>)
   \<and> p_surface_form ((demo_payload [''Q90''])\<lparr>p_surface_form := None\<rparr>) = None
   \<and> \<not> payload_empty ((demo_payload [''Q90''])\<lparr>p_surface_form := None\<rparr>)
   \<and> candidates_to_process demo_env ((demo_payload [''Q90''])\<lparr>p_surface_form := None\<rparr>)
       = [''Q90'']
   \<and> disambiguate demo_env ((demo_payload [''Q90''])\<lparr>p_surface_form := None\<rparr>) =
       disambiguate demo_env ((demo_payload [''Q90''])\<lparr>p_surface_form := Some []\<rparr>)
   \<and> list_ex is_scoring_call
        (fst (disambiguate demo_env ((demo_payload [''Q90''])\<lparr>p_surface_form := None\<rparr>)))"
proof -
  note t = missing_fields[where env = demo_env
        and p = "(demo_payload [''Q90''])\<lparr>p_candidates := None\<rparr>"
        and q = "(demo_payload [''Q90''])\<lparr>p_surface_form := None\<rparr>"]
  have pc: "p_candidates ((demo_payload [''Q90''])\<lparr>p_candidates := None\<rparr>) = None"
    by simp
  have ps: "p_surface_form ((demo_payload [''Q90''])\<lparr>p_surface_form := None\<rparr>) = None"
    by simp
  have a: "\<not> payload_empty ((demo_payload [''Q90''])\<lparr>p_candidates := None\<rparr>)"
    by code_simp
  have b: "\<not> payload_empty ((demo_payload [''Q90''])\<lparr>p_surface_form := None\<rparr>)"
    by code_simp
  have c: "candidates_to_process demo_env ((demo_payload [''Q90''])\<lparr>p_surface_form := None\<rparr>)
       = [''Q90'']"
    by code_simp
  then have ne: "candidates_to_process demo_env ((demo_payload [''Q90''])\<lparr>p_surface_form := None\<rparr>)
       \<noteq> []"
    by simp
  from t pc a have 1: "disambiguate demo_env ((demo_payload [''Q90''])\<lparr>p_candidates := None\<rparr>) =
       ([], Inr \<lparr>inferred_property = None, ranked_candidates = []\<rparr>)"
    by simp
  from t ps b have 2: "disambiguate demo_env ((demo_payload [''Q90''])\<lparr>p_surface_form := None\<rparr>) =
       disambiguate demo_env ((demo_payload [''Q90''])\<lparr>p_surface_form := Some []\<rparr>)"
    by simp
  from t b ne have 3: "list_ex is_scoring_call
        (fst (disambiguate demo_env ((demo_payload [''Q90''])\<lparr>p_surface_form := None\<rparr>)))"
    by blast
  from pc 1 ps b c 2 3 show ?thesis by blast
qed

text \<open>
  A request without a surface form and with one candidate: the embedding model is
  called on the request text and on the candidate's description, and the candidate
  is ranked.
\<close>

theorem missing_fields_counterexample:
  "disambiguate demo_env ((demo_payload [''Q90''])\<lparr>p_surface_form := None\<rparr>) =
     ([EsSearch ''visiting'', EsMget [''Q90''], Encode '' visiting'', Encode ''about Q90''],
      Inr \<lparr>inferred_property = Some ''P119'',
           ranked_candidates =
             [\<lparr>cand_id = ''Q90'', falcon_score = 9 / 10,
               semantic_reason = ''Context match: 90%''\<rparr>]\<rparr>)
   \<and> is_scoring_call (Encode '' visiting'')"
  by code_simp

section \<open>Claims on the description resolver and the limit\<close>

text \<open>
  C6. Both resolvers make one multi-get call and always return a map. When the call
  raises, the map sends every requested identifier to the empty string, and holds
  nothing else. When it answers, the map has an entry for exactly the identifiers of
  the documents of the answer; the entity store answers a multi-get with one
  document, found or not, per requested identifier, and then every requested
  identifier has an entry.
\<close>

theorem descriptions_cover_requested:
  "(es_mget env qids = Some docs \<longrightarrow>
      dom (snd (fetch_candidate_descriptions env qids)) = doc_id ` set docs
      \<and> dom (snd (fetch_descriptions env qids)) = doc_id ` set docs)
   \<and> (es_mget env qids = Some docs \<and> set qids \<subseteq> doc_id ` set docs \<longrightarrow>
        set qids \<subseteq> dom (snd (fetch_candidate_descriptions env qids))
        \<and> set qids \<subseteq> dom (snd (fetch_descriptions env qids)))
   \<and> (es_mget env' qids' = None \<longrightarrow>
        snd (fetch_candidate_descriptions env' qids')
          = (\<lambda>q. if q \<in> set qids' then Some [] else None)
        \<and> snd (fetch_descriptions env' qids')
          = (\<lambda>q. if q \<in> set qids' then Some [] else None))
   \<and> fst (fetch_candidate_descriptions env qids) = [EsMget qids]
   \<and> fst (fetch_descriptions env qids) = [EsMget qids]"
proof -
  have a: "dom (snd (fetch_candidate_descriptions env qids)) = doc_id ` set docs
      \<and> dom (snd (fetch_descriptions env qids)) = doc_id ` set docs"
    if "es_mget env qids = Some docs"
    using that
    by (simp add: fetch_candidate_descriptions_def fetch_descriptions_def dom_collect_docs)
  have b: "snd (fetch_candidate_descriptions env' qids')
          = (\<lambda>q. if q \<in> set qids' then Some [] else None)
        \<and> snd (fetch_descriptions env' qids')
          = (\<lambda>q. if q \<in> set qids' then Some [] else None)"
    if "es_mget env' qids' = None"
    using that
    by (simp add: fetch_candidate_descriptions_def fetch_descriptions_def all_empty_apply)
  have c: "fst (fetch_candidate_descriptions env qids) = [EsMget qids]
   \<and> fst (fetch_descriptions env qids) = [EsMget qids]"
    by (simp add: fetch_candidate_descriptions_def fetch_descriptions_def)
  show ?thesis using a b c by auto
qed

text \<open>
  Two identifiers resolved by the example store, and by the store whose lookups raise.
\<close>

theorem descriptions_cover_requested_witness:
  "es_mget demo_env [''Q90'', ''Q1''] =
     Some [\<lparr>doc_id = ''Q90'', doc_found = True, doc_description = Some ''about Q90'',
            doc_label = None\<rparr>,
           \<lparr>doc_id = ''Q1'', doc_found = True, doc_description = Some ''about Q1'',
            doc_label = None\<rparr>]
   \<and> set [''Q90'', ''Q1''] \<subseteq> doc_id ` set
          [\<lparr>doc_id = ''Q90'', doc_found = True, doc_description = Some ''about Q90'',
            doc_label = None\<rparr>,
           \<lparr>doc_id = ''Q1'', doc_found = True, doc_description = Some ''about Q1'',
            doc_label = None\<rparr>]
   \<and> set [''Q90'', ''Q1''] \<subseteq> dom (snd (fetch_candidate_descriptions demo_env [''Q90'', ''Q1'']))
   \<and> set [''Q90'', ''Q1''] \<subseteq> dom (snd (fetch_descriptions demo_env [''Q90'', ''Q1'']))
   \<and> es_mget demo_env_down [''Q90'', ''Q1''] = None
   \<and> snd (fetch_candidate_descriptions demo_env_down [''Q90'', ''Q1'']) ''Q1'' = Some []
   \<and> snd (fetch_descriptions demo_env_down [''Q90'', ''Q1'']) ''Q90'' = Some []"
proof -
  note t = descriptions_cover_requested[where env = demo_env and qids = "[''Q90'', ''Q1'']"
      and docs = "[\<lparr>doc_id = ''Q90'', doc_found = True, doc_description = Some ''about Q90'',
            doc_label = None\<rparr>,
           \<lparr>doc_id = ''Q1'', doc_found = True, doc_description = Some ''about Q1'',
            doc_label = None\<rparr>]"
      and env' = demo_env_down and qids' = "[''Q90'', ''Q1'']"]
  have a: "es_mget demo_env [''Q90'', ''Q1''] =
     Some [\<lparr>doc_id = ''Q90'', doc_found = True, doc_description = Some ''about Q90'',
            doc_label = None\<rparr>,
           \<lparr>doc_id = ''Q1'', doc_found = True, doc_description = Some ''about Q1'',
            doc_label = None\<rparr>]"
    by (simp add: demo_env_def)
  have b: "set [''Q90'', ''Q1''] \<subseteq> doc_id ` set
          [\<lparr>doc_id = ''Q90'', doc_found = True, doc_description = Some ''about Q90'',
            doc_label = None\<rparr>,
           \<lparr>doc_id = ''Q1'', doc_found = True, doc_description = Some ''about Q1'',
            doc_label = None\<rparr>]"
    by simp
  have c: "es_mget demo_env_down [''Q90'', ''Q1''] = None"
    by (simp add: demo_env_down_def)
  from t a b have 1:
    "set [''Q90'', ''Q1''] \<subseteq> dom (snd (fetch_candidate_descriptions demo_env [''Q90'', ''Q1'']))
     \<and> set [''Q90'', ''Q1''] \<subseteq> dom (snd (fetch_descriptions demo_env [''Q90'', ''Q1'']))"
    by blast
  from t c have 2:
    "snd (fetch_candidate_descriptions demo_env_down [''Q90'', ''Q1''])
          = (\<lambda>q. if q \<in> set [''Q90'', ''Q1''] then Some [] else None)
     \<and> snd (fetch_descriptions demo_env_down [''Q90'', ''Q1''])
          = (\<lambda>q. if q \<in> set [''Q90'', ''Q1''] then Some [] else None)"
    by blast
  have 3: "snd (fetch_candidate_descriptions demo_env_down [''Q90'', ''Q1'']) ''Q1'' = Some []
     \<and> snd (fetch_descriptions demo_env_down [''Q90'', ''Q1'']) ''Q90'' = Some []"
    using 2 by simp
  from a b 1 c 3 show ?thesis by blast
qed



end
